theory Spec2Isabelle
  imports Main
begin

section \<open>Netflix content dashboard: the script \<^verbatim>\<open>app.py\<close>\<close>

text \<open>
  The program is one Streamlit script. Each user interaction re-executes it from top to
  bottom (one \<^emph>\<open>cycle\<close>): it configures the page, prints a title and an
  introduction, and then, inside a single \<^verbatim>\<open>try\<close> block, loads a CSV through a
  memoised loader, draws the sidebar selector and renders the page the selector returns.
  The handler \<^verbatim>\<open>except Exception as e\<close> prints one error message.

  The model is a trace semantics: a cycle yields the list of interface calls that took
  effect, in order, and the exception that left the script, if one did. pandas,
  Streamlit, matplotlib and seaborn are libraries outside the repository; they appear as
  constructors of the trace (what was asked of them) and as the environment of a cycle
  (what they answered: the state of the file, the selector's value, a call that raises).
  Python strings are modelled as their UTF-8 bytes, so a character beyond ASCII is a short
  list of \<^typ>\<open>char\<close>.
\<close>

subsection \<open>Tables\<close>

datatype cell = Str string | Num int | NaN

text \<open>A \<^verbatim>\<open>pandas.DataFrame\<close>: row labels, column labels, and the rows of cells.\<close>

record dataframe =
  index :: "cell list"
  columns :: "cell list"
  rows :: "cell list list"

text \<open>\<^verbatim>\<open>df.head(n)\<close> for \<open>n \<ge> 0\<close>: the first \<open>n\<close> rows, all of them when there are fewer.\<close>

definition head :: "nat \<Rightarrow> dataframe \<Rightarrow> dataframe" where
  "head n df = df\<lparr>index := take n (index df), rows := take n (rows df)\<rparr>"

text \<open>
  A Python \<^verbatim>\<open>dict\<close> literal keeps its insertion order: an association list.
  \<^verbatim>\<open>pd.DataFrame(d)\<close> of a dict of dicts has one column for each outer key and one row
  for each inner key, in the order of first appearance; a missing entry is NaN.
  \<^verbatim>\<open>.T\<close> swaps rows and columns.
\<close>

type_synonym ('k, 'v) dict = "('k \<times> 'v) list"

definition dict_keys :: "('k, 'v) dict \<Rightarrow> 'k list" where
  "dict_keys d = map fst d"

definition dict_values :: "('k, 'v) dict \<Rightarrow> 'v list" where
  "dict_values d = map snd d"

fun first_seen :: "'a list \<Rightarrow> 'a list \<Rightarrow> 'a list" where
  "first_seen acc [] = acc"
| "first_seen acc (k # ks) = first_seen (if List.member acc k then acc else acc @ [k]) ks"

definition DataFrame :: "(string, (string, cell) dict) dict \<Rightarrow> dataframe" where
  "DataFrame d =
     (let idx = first_seen [] (concat (map dict_keys (dict_values d)))
      in \<lparr>index = map Str idx,
          columns = map Str (dict_keys d),
          rows = map (\<lambda>k. map (\<lambda>inner. case map_of inner k of Some v \<Rightarrow> v | None \<Rightarrow> NaN)
                               (dict_values d)) idx\<rparr>)"

definition df_T :: "dataframe \<Rightarrow> dataframe" where
  "df_T df =
     \<lparr>index = columns df,
      columns = index df,
      rows = map (\<lambda>j. map (\<lambda>r. if j < length r then r ! j else NaN) (rows df))
                 [0..<length (columns df)]\<rparr>"

subsection \<open>The interface trace\<close>

text \<open>
  A figure as seaborn draws it: \<^verbatim>\<open>sns.barplot(x, y, palette)\<close>, and
  \<^verbatim>\<open>sns.lineplot(x, y, marker)\<close> on a figure of the given size with its title.
\<close>

datatype chart =
    Barplot "cell list" "cell list" string
  | Lineplot "cell list" "cell list" string "nat \<times> nat" string

datatype elem =
    PageConfig string string
  | Title string
  | Markdown string
  | Header string
  | Radio string "string list"
  | Columns nat
  | Metric string cell
  | Write string
  | Dataframe dataframe
  | Table dataframe
  | Pyplot chart
  | Info string
  | Error string

text \<open>
  Where a call draws: the page body, the sidebar, or the \<open>i\<close>-th column of the last
  \<^verbatim>\<open>st.columns\<close> (\<^verbatim>\<open>col1\<close> is \<open>Col 1\<close>).
\<close>

datatype place = Body | Sidebar | Col nat

type_synonym ui = "place \<times> elem"

subsection \<open>Before the \<^verbatim>\<open>try\<close> block\<close>

definition intro_text :: string where
  "intro_text =
     ''\<newline>'' @
     ''This dashboard analyzes the Netflix content library using Economic principles to understand content segmentation and trends.\<newline>''"

text \<open>\<^verbatim>\<open>st.set_page_config\<close>, \<^verbatim>\<open>st.title\<close> and \<^verbatim>\<open>st.markdown\<close>, in this order.\<close>

definition preamble :: "ui list" where
  "preamble =
     [(Body, PageConfig ''Netflix Business Analysis'' ''wide''),
      (Body, Title ([CHR 0xF0, CHR 0x9F, CHR 0x8E, CHR 0xAC] @
                    '' Netflix Content Strategy & Business Analysis'')),
      (Body, Markdown intro_text)]"

subsection \<open>The sidebar\<close>

definition nav_choices :: "string list" where
  "nav_choices =
     [''Overview'', ''Exploratory Analysis'', ''Content Clustering'', ''Duration Prediction'',
      ''Strategic Recommendations'']"

definition sidebar :: "ui list" where
  "sidebar = [(Sidebar, Header ''Navigation''), (Sidebar, Radio ''Go to'' nav_choices)]"

subsection \<open>The five pages\<close>

definition overview_header :: string where
  "overview_header = [CHR 0xF0, CHR 0x9F, CHR 0x93, CHR 0x8A] @ '' Dataset Overview''"

definition overview_notes :: string where
  "overview_notes =
     ''\<newline>'' @
     ''        *   **Supply Balance**: Movies significantly outnumber TV Shows (70% vs 30%). This suggests a strategy focused on high-volume, single-session viewing to lower the entry barrier for casual users.\<newline>'' @
     ''        *   **Data Integrity**: The dataset is fully clean with no missing values, ensuring that strategic decisions based on this analysis are grounded in reliable data.\<newline>'' @
     ''        ''"

definition overview_page :: "dataframe \<Rightarrow> ui list" where
  "overview_page df =
     [(Body, Header overview_header),
      (Body, Columns 3),
      (Col 1, Metric ''Total Titles'' (Num 8706)),
      (Col 2, Metric ''Movies'' (Num 6128)),
      (Col 3, Metric ''TV Shows'' (Num 2578)),
      (Body, Write ''### Business Meaning of Data Overview''),
      (Body, Markdown overview_notes),
      (Body, Write ''### Sample Data''),
      (Body, Dataframe (head 10 df))]"

definition exploratory_header :: string where
  "exploratory_header =
     [CHR 0xF0, CHR 0x9F, CHR 0x93, CHR 0x88] @ '' Exploratory Data Analysis & Economic Insights''"

definition split_info :: string where
  "split_info =
     ''**Economic Principle**: This reflects resource allocation. A higher supply of movies may indicate a lower production cost per title compared to multi-season series, while TV shows aim for sustained engagement and reduced churn.''"

definition genre_data :: "(string, int) dict" where
  "genre_data =
     [(''International Movies'', 2752), (''Dramas'', 2427), (''Comedies'', 1674),
      (''International TV Shows'', 1328), (''Documentaries'', 869),
      (''Action & Adventure'', 859), (''Independent Movies'', 756), (''TV Dramas'', 739),
      (''Children & Family Movies'', 641), (''Romantic Movies'', 616)]"

definition genre_info :: string where
  "genre_info =
     ''**Strategy**: International content and Dramas dominate, highlighting a Global Diversification strategy to capture market share across different cultural demographics.''"

definition release_data :: "(int, int) dict" where
  "release_data =
     [(2010, 189), (2012, 229), (2014, 343), (2015, 548), (2016, 878), (2017, 1015),
      (2018, 1140), (2019, 1030), (2020, 953)]"

definition trend_notes :: string where
  "trend_notes =
     ''\<newline>'' @
     ''        **Economic Interpretation**: \<newline>'' @
     ''        The exponential growth in titles until 2018 represents an aggressive **Market Penetration** phase. The recent stabilization suggests a transition from 'Supply-side Push' to a more targeted 'Nuanced Demand' strategy, focusing on quality and lifecycle retention.\<newline>'' @
     ''        ''"

definition exploratory_page :: "ui list" where
  "exploratory_page =
     [(Body, Header exploratory_header),
      (Body, Columns 2),
      (Col 1, Write ''#### Movies vs TV Shows''),
      (Col 1, Pyplot (Barplot [Str ''TV Show'', Str ''Movie''] [Num 2578, Num 6128] ''viridis'')),
      (Col 1, Info split_info),
      (Col 2, Write ''#### Top 10 Genres''),
      (Col 2, Pyplot (Barplot (map Num (dict_values genre_data))
                              (map Str (dict_keys genre_data)) ''magma'')),
      (Col 2, Info genre_info),
      (Body, Write ''#### Content Release Trend (Supply Trend)''),
      (Body, Pyplot (Lineplot (map Num (dict_keys release_data))
                              (map Num (dict_values release_data)) ''o'' (12, 5)
                              ''Content Supply Trend Over Time'')),
      (Body, Markdown trend_notes)]"

definition clustering_header :: string where
  "clustering_header = [CHR 0xF0, CHR 0x9F, CHR 0xA7, CHR 0xA9] @ '' K-Means Content Segmentation''"

definition clustering_intro :: string where
  "clustering_intro =
     ''\<newline>'' @
     ''        ### Market Segmentation Results\<newline>'' @
     ''        The K-Means algorithm identified 4 distinct content segments based on year, duration, and rating:\<newline>'' @
     ''        ''"

definition cluster_summary :: "(string, (string, cell) dict) dict" where
  "cluster_summary =
     [(''Cluster 0'', [(''Year'', Num 2014), (''Duration'', Str ''106 min''),
                       (''Type'', Str ''Movie''), (''Segment'', Str ''Mainstream Movies'')]),
      (''Cluster 1'', [(''Year'', Num 2016), (''Duration'', Str ''90 min''),
                       (''Type'', Str ''Movie''), (''Segment'', Str ''Recent Indie/Short Films'')]),
      (''Cluster 2'', [(''Year'', Num 2017), (''Duration'', Str ''1.7 Seasons''),
                       (''Type'', Str ''TV Show''), (''Segment'', Str ''Modern Episodic Content'')]),
      (''Cluster 3'', [(''Year'', Num 1985), (''Duration'', Str ''112 min''),
                       (''Type'', Str ''Movie''), (''Segment'', Str ''Classic Library Content'')])]"

definition clustering_notes :: string where
  "clustering_notes =
     ''\<newline>'' @
     ''        **Strategic Business Insights**:\<newline>'' @
     ''        1.  **Cluster 0 & 3 (Movies)**: Drive initial user acquisition and provide library depth.\<newline>'' @
     ''        2.  **Cluster 2 (TV Shows)**: Vital for **Customer Lifetime Value (CLTV)**. Multi-season shows reduce churn and build brand loyalty.\<newline>'' @
     ''        3.  **Cluster 1**: Represents testing of new concepts via shorter form content, allowing for efficient experimentation with user preferences.\<newline>'' @
     ''        ''"

definition clustering_page :: "ui list" where
  "clustering_page =
     [(Body, Header clustering_header),
      (Body, Markdown clustering_intro),
      (Body, Table (df_T (DataFrame cluster_summary))),
      (Body, Markdown clustering_notes)]"

definition duration_header :: string where
  "duration_header =
     [CHR 0xF0, CHR 0x9F, CHR 0x93, CHR 0x89] @ '' Linear Regression: Rating vs Duration''"

definition duration_notes :: string where
  "duration_notes =
     ''\<newline>'' @
     ''        **Model Interpretation**:\<newline>'' @
     ''        *   The low **R-squared (14%)** indicates that content rating is a poor predictor of duration.\<newline>'' @
     ''        *   **Business Implication**: Netflix does not restrict content length based on target age group. Instead, duration is likely driven by **Creative Intent**, **Genre Conventions**, and **Production Budgets**. \<newline>'' @
     ''        *   This flexibility allows creators to maximize 'Consumer Utility' without rigid format constraints.\<newline>'' @
     ''        ''"

definition duration_page :: "ui list" where
  "duration_page =
     [(Body, Header duration_header),
      (Body, Columns 2),
      (Col 1, Metric (''R'' @ [CHR 0xC2, CHR 0xB2] @ '' Score'') (Str ''0.1407'')),
      (Col 2, Metric ''Mean Squared Error'' (Str ''2264.50'')),
      (Body, Markdown duration_notes)]"

definition recommendations_header :: string where
  "recommendations_header =
     [CHR 0xF0, CHR 0x9F, CHR 0x8E, CHR 0xAF] @ '' Strategic Recommendations for Netflix''"

definition recommendations_text :: string where
  "recommendations_text =
     ''\<newline>'' @
     ''        Based on the full analysis, here are the core economic recommendations:\<newline>'' @
     ''        \<newline>'' @
     ''        #### 1. Optimization of Content Mix\<newline>'' @
     ''        *   **Acquisition**: Continue leveraging Cluster 0 (International Movies) for rapid library expansion in emerging markets.\<newline>'' @
     ''        *   **Retention**: Pivot investment towards Cluster 2 (TV Shows) to increase binge-watching cycles and subscription stability.\<newline>'' @
     ''        \<newline>'' @
     ''        #### 2. Risk Diversification\<newline>'' @
     ''        *   Maintaining a high volume of 'International' titles serves as a hedge against market-specific saturation or regulatory shifts in any single country.\<newline>'' @
     ''        \<newline>'' @
     ''        #### 3. Data-Driven Decisions\<newline>'' @
     ''        *   Since ratings don't dictate duration, Netflix should continue allowing creators to tailor runtimes to storytelling needs, as this 'Product Differentiation' is a key competitive advantage over traditional linear TV.\<newline>'' @
     ''        \<newline>'' @
     ''        #### 4. Subscriber Lifecycle Management\<newline>'' @
     ''        *   Use broad-appeal movies (Clusters 0, 3) for the **Acquisition Phase**.\<newline>'' @
     ''        *   Deploy compelling multi-season series (Cluster 2) for the **Retention Phase**.\<newline>'' @
     ''        ''"

definition recommendations_page :: "ui list" where
  "recommendations_page =
     [(Body, Header recommendations_header),
      (Body, Markdown recommendations_text)]"

subsection \<open>The page router\<close>

text \<open>
  The \<^verbatim>\<open>if\<close>/\<^verbatim>\<open>elif\<close> chain on \<^verbatim>\<open>page\<close>: five branches in source order, each with
  the comparison that guards it and the calls of its body. The chain has no
  \<^verbatim>\<open>else\<close>: when no guard holds, nothing is rendered.
\<close>

datatype branch =
    Overview | Exploratory_Analysis | Content_Clustering | Duration_Prediction
  | Strategic_Recommendations

fun guard :: "branch \<Rightarrow> string \<Rightarrow> bool" where
  "guard Overview page = (page = ''Overview'')"
| "guard Exploratory_Analysis page = (page = ''Exploratory Analysis'')"
| "guard Content_Clustering page = (page = ''Content Clustering'')"
| "guard Duration_Prediction page = (page = ''Duration Prediction'')"
| "guard Strategic_Recommendations page = (page = ''Strategic Recommendations'')"

fun body :: "branch \<Rightarrow> dataframe \<Rightarrow> ui list" where
  "body Overview df = overview_page df"
| "body Exploratory_Analysis df = exploratory_page"
| "body Content_Clustering df = clustering_page"
| "body Duration_Prediction df = duration_page"
| "body Strategic_Recommendations df = recommendations_page"

definition chain :: "branch list" where
  "chain =
     [Overview, Exploratory_Analysis, Content_Clustering, Duration_Prediction,
      Strategic_Recommendations]"

text \<open>The guards are tested in order; the first that holds selects its branch.\<close>

fun elif :: "branch list \<Rightarrow> string \<Rightarrow> branch option" where
  "elif [] page = None"
| "elif (b # bs) page = (if guard b page then Some b else elif bs page)"

definition render_page :: "string \<Rightarrow> dataframe \<Rightarrow> ui list" where
  "render_page page df = (case elif chain page of None \<Rightarrow> [] | Some b \<Rightarrow> body b df)"

subsection \<open>Exceptions and the file\<close>

text \<open>
  An exception of the class \<^verbatim>\<open>Exception\<close> or below: its class name and the text
  \<^verbatim>\<open>str(e)\<close>. These are the errors the libraries report; the clause
  \<^verbatim>\<open>except Exception\<close> matches each of them.
\<close>

record py_exception =
  exc_class :: string
  exc_str :: string

text \<open>
  What \<^verbatim>\<open>pd.read_csv\<close> finds at a path: no file; something it does not turn into a
  table, with the exception it raises for it (a \<^verbatim>\<open>PermissionError\<close> or an
  \<^verbatim>\<open>IsADirectoryError\<close> when the path cannot be opened, an \<^verbatim>\<open>EmptyDataError\<close>, a
  \<^verbatim>\<open>ParserError\<close> or a \<^verbatim>\<open>UnicodeDecodeError\<close> when the content is rejected); or a
  file it parses into a table. The parser builds the table from whatever header line the
  file has.
\<close>

datatype file_state = Absent | Rejected py_exception | Parsed dataframe

definition repr :: "string \<Rightarrow> string" where
  "repr s = [CHR 0x27] @ s @ [CHR 0x27]"

definition read_csv :: "(string \<Rightarrow> file_state) \<Rightarrow> string \<Rightarrow> py_exception + dataframe" where
  "read_csv fs path =
     (case fs path of
        Absent \<Rightarrow>
          Inl \<lparr>exc_class = ''FileNotFoundError'',
               exc_str = ''[Errno 2] No such file or directory: '' @ repr path\<rparr>
      | Rejected e \<Rightarrow> Inl e
      | Parsed df \<Rightarrow> Inr df)"

subsection \<open>The memoised loader\<close>

text \<open>
  The state that outlives a cycle: the entry of \<^verbatim>\<open>@st.cache_data\<close> for
  \<^verbatim>\<open>load_data\<close> (the function takes no argument, so there is one key), and a count of
  the executions of \<^verbatim>\<open>pd.read_csv\<close>. The decorator is used with its defaults: no
  expiry, no bound on entries; a call that raises stores nothing.
\<close>

record process =
  cache :: "dataframe option"
  reads :: nat

definition load_data ::
  "(string \<Rightarrow> file_state) \<Rightarrow> process \<Rightarrow> (py_exception + dataframe) \<times> process" where
  "load_data fs p =
     (case cache p of
        Some df \<Rightarrow> (Inr df, p)
      | None \<Rightarrow>
          (case read_csv fs ''netflix_clean.csv'' of
             Inl e \<Rightarrow> (Inl e, p\<lparr>reads := Suc (reads p)\<rparr>)
           | Inr df \<Rightarrow> (Inr df, p\<lparr>cache := Some df, reads := Suc (reads p)\<rparr>)))"

text \<open>
  Successive invocations of the loader, each against the files as they are at that
  moment: the results in order, and the state after the last.
\<close>

fun loads ::
  "(string \<Rightarrow> file_state) list \<Rightarrow> process \<Rightarrow> (py_exception + dataframe) list \<times> process" where
  "loads [] p = ([], p)"
| "loads (fs # fss) p =
     (case load_data fs p of
        (r, p') \<Rightarrow> (case loads fss p' of (rs, p'') \<Rightarrow> (r # rs, p'')))"

subsection \<open>One cycle of the script\<close>

text \<open>
  The environment of a cycle: the files, the value \<^verbatim>\<open>st.sidebar.radio\<close> returns, and
  the interface calls that raise instead of drawing.
\<close>

record env =
  storage :: "string \<Rightarrow> file_state"
  selection :: string
  raises :: "ui \<Rightarrow> py_exception option"

text \<open>
  Calls run in order. A call that raises draws nothing and ends the sequence; what was
  drawn before it stays on the page.
\<close>

fun emit :: "(ui \<Rightarrow> py_exception option) \<Rightarrow> ui list \<Rightarrow> ui list \<times> py_exception option" where
  "emit r [] = ([], None)"
| "emit r (u # us) =
     (case r u of
        Some e \<Rightarrow> ([], Some e)
      | None \<Rightarrow> (case emit r us of (out, x) \<Rightarrow> (u # out, x)))"

text \<open>The body of the \<^verbatim>\<open>try\<close> block: load, sidebar, page.\<close>

definition try_body :: "env \<Rightarrow> process \<Rightarrow> (ui list \<times> py_exception option) \<times> process" where
  "try_body c p =
     (case load_data (storage c) p of
        (Inl e, p') \<Rightarrow> (([], Some e), p')
      | (Inr df, p') \<Rightarrow> (emit (raises c) (sidebar @ render_page (selection c) df), p'))"

definition handler :: "py_exception \<Rightarrow> ui list" where
  "handler e = [(Body, Error (''Error loading dashboard: '' @ exc_str e))]"

text \<open>
  The result of a cycle: what is on the page, and the exception that left the script
  uncaught, if any.
\<close>

record outcome =
  shown :: "ui list"
  uncaught :: "py_exception option"

definition script :: "env \<Rightarrow> process \<Rightarrow> outcome \<times> process" where
  "script c p =
     (case emit (raises c) preamble of
        (out0, Some e) \<Rightarrow> (\<lparr>shown = out0, uncaught = Some e\<rparr>, p)
      | (out0, None) \<Rightarrow>
          (case try_body c p of
             ((out1, None), p') \<Rightarrow> (\<lparr>shown = out0 @ out1, uncaught = None\<rparr>, p')
           | ((out1, Some e), p') \<Rightarrow>
               (case emit (raises c) (handler e) of
                  (out2, x) \<Rightarrow> (\<lparr>shown = out0 @ out1 @ out2, uncaught = x\<rparr>, p'))))"

subsection \<open>Reading a page\<close>

text \<open>
  What a page shows, by kind: the error boxes, the metrics (label and value), the
  \<^verbatim>\<open>st.dataframe\<close> previews, the \<^verbatim>\<open>st.table\<close> tables, the figures, and the headers
  of the page body.
\<close>

fun error_of :: "ui \<Rightarrow> string list" where
  "error_of (w, Error m) = [m]"
| "error_of u = []"

definition errors :: "ui list \<Rightarrow> string list" where
  "errors out = concat (map error_of out)"

fun metric_of :: "ui \<Rightarrow> (string \<times> cell) list" where
  "metric_of (w, Metric l v) = [(l, v)]"
| "metric_of u = []"

definition metrics :: "ui list \<Rightarrow> (string \<times> cell) list" where
  "metrics out = concat (map metric_of out)"

fun preview_of :: "ui \<Rightarrow> dataframe list" where
  "preview_of (w, Dataframe d) = [d]"
| "preview_of u = []"

definition previews :: "ui list \<Rightarrow> dataframe list" where
  "previews out = concat (map preview_of out)"

fun table_of :: "ui \<Rightarrow> dataframe list" where
  "table_of (w, Table d) = [d]"
| "table_of u = []"

definition tables :: "ui list \<Rightarrow> dataframe list" where
  "tables out = concat (map table_of out)"

fun chart_of :: "ui \<Rightarrow> chart list" where
  "chart_of (w, Pyplot ch) = [ch]"
| "chart_of u = []"

definition charts :: "ui list \<Rightarrow> chart list" where
  "charts out = concat (map chart_of out)"

fun page_header_of :: "ui \<Rightarrow> string list" where
  "page_header_of (Body, Header h) = [h]"
| "page_header_of u = []"

definition page_headers :: "ui list \<Rightarrow> string list" where
  "page_headers out = concat (map page_header_of out)"

fun radio_of :: "ui \<Rightarrow> string list list" where
  "radio_of (w, Radio l opts) = [opts]"
| "radio_of u = []"

definition radios :: "ui list \<Rightarrow> string list list" where
  "radios out = concat (map radio_of out)"

text \<open>The page without its previews.\<close>

definition without_previews :: "ui list \<Rightarrow> ui list" where
  "without_previews out = filter (\<lambda>u. preview_of u = []) out"

text \<open>The page without its previews and its error boxes.\<close>

definition fixed_part :: "ui list \<Rightarrow> ui list" where
  "fixed_part out = filter (\<lambda>u. preview_of u = [] \<and> error_of u = []) out"

text \<open>The column of a table under a label, as \<^verbatim>\<open>df[label]\<close> lists it.\<close>

definition column :: "dataframe \<Rightarrow> cell \<Rightarrow> cell list" where
  "column df label =
     map (\<lambda>r. case map_of (zip (columns df) r) label of Some v \<Rightarrow> v | None \<Rightarrow> NaN) (rows df)"

subsection \<open>Environments used as examples\<close>

text \<open>No interface call raises.\<close>

definition no_faults :: "ui \<Rightarrow> py_exception option" where
  "no_faults u = None"

text \<open>A process that has loaded nothing yet.\<close>

definition fresh :: process where
  "fresh = \<lparr>cache = None, reads = 0\<rparr>"

text \<open>A directory without \<^verbatim>\<open>netflix_clean.csv\<close>.\<close>

definition no_file :: "string \<Rightarrow> file_state" where
  "no_file path = Absent"

text \<open>A small catalogue with the five columns the analysis is about.\<close>

definition catalogue :: dataframe where
  "catalogue =
     \<lparr>index = [Num 0, Num 1],
      columns = [Str ''type'', Str ''listed_in'', Str ''release_year'', Str ''duration'',
                 Str ''rating''],
      rows = [[Str ''Movie'', Str ''Dramas'', Num 2019, Str ''106 min'', Str ''PG-13''],
              [Str ''TV Show'', Str ''TV Dramas'', Num 2017, Str ''2 Seasons'', Str ''TV-MA'']]\<rparr>"

text \<open>Another table: twelve rows of one column that is none of the five.\<close>

definition ledger :: dataframe where
  "ledger =
     \<lparr>index = [Num 0, Num 1, Num 2, Num 3, Num 4, Num 5, Num 6, Num 7, Num 8, Num 9, Num 10,
               Num 11],
      columns = [Str ''amount''],
      rows = [[Num 5], [Num 8], [Num 13], [Num 21], [Num 34], [Num 55], [Num 89], [Num 144],
              [Num 233], [Num 377], [Num 610], [Num 987]]\<rparr>"

definition holds :: "dataframe \<Rightarrow> string \<Rightarrow> file_state" where
  "holds df path = (if path = ''netflix_clean.csv'' then Parsed df else Absent)"

text \<open>
  A cycle on the Overview page in which \<^verbatim>\<open>st.dataframe\<close> rejects the table it is
  given.
\<close>

definition arrow_error :: py_exception where
  "arrow_error =
     \<lparr>exc_class = ''ArrowInvalid'', exc_str = ''Could not convert value with type str''\<rparr>"

definition preview_fails :: "ui \<Rightarrow> py_exception option" where
  "preview_fails u = (case snd u of Dataframe d \<Rightarrow> Some arrow_error | _ \<Rightarrow> None)"

text \<open>
  A table with a number that does not fit 64 bits, and a \<^verbatim>\<open>st.dataframe\<close> that
  raises on such a table and on no other; every other call draws.
\<close>

definition register :: dataframe where
  "register =
     \<lparr>index = [Num 0, Num 1],
      columns = [Str ''title'', Str ''views''],
      rows = [[Str ''Dark'', Num 120], [Str ''Roma'', Num 18446744073709551616]]\<rparr>"

definition fits_64_bits :: "cell \<Rightarrow> bool" where
  "fits_64_bits v =
     (case v of Num n \<Rightarrow> - 9223372036854775808 \<le> n \<and> n < 18446744073709551616 | _ \<Rightarrow> True)"

definition overflow_error :: py_exception where
  "overflow_error =
     \<lparr>exc_class = ''OverflowError'', exc_str = ''Python int too large to convert to C long''\<rparr>"

definition wide_int_fails :: "ui \<Rightarrow> py_exception option" where
  "wide_int_fails u =
     (case snd u of
        Dataframe d \<Rightarrow>
          if list_all (list_all fits_64_bits) (rows d) then None else Some overflow_error
      | _ \<Rightarrow> None)"

text \<open>A path that is a directory.\<close>

definition is_a_directory :: py_exception where
  "is_a_directory =
     \<lparr>exc_class = ''IsADirectoryError'',
      exc_str = ''[Errno 21] Is a directory: '' @ repr ''netflix_clean.csv''\<rparr>"

definition directory_there :: "string \<Rightarrow> file_state" where
  "directory_there path =
     (if path = ''netflix_clean.csv'' then Rejected is_a_directory else Absent)"



section \<open>Properties\<close>

subsection \<open>Sequences of calls\<close>

lemma emit_no_faults: "emit no_faults us = (us, None)"
  by (induction us) (simp_all add: no_faults_def)

lemma emit_prefix: "emit r us = (out, x) \<Longrightarrow> \<exists>rest. us = out @ rest"
proof (induction us arbitrary: out x)
  case Nil
  then show ?case by simp
next
  case (Cons u us)
  show ?case
  proof (cases "r u")
    case None
    obtain o' x' where e: "emit r us = (o', x')" by (cases "emit r us")
    with Cons.prems None have "out = u # o'" by simp
    moreover from Cons.IH [OF e] obtain rest where "us = o' @ rest" ..
    ultimately show ?thesis by simp
  next
    case (Some e)
    with Cons.prems show ?thesis by simp
  qed
qed

lemma errors_append: "errors (xs @ ys) = errors xs @ errors ys"
  by (simp add: errors_def)

lemma errors_body: "errors (body b df) = []"
  by (cases b)
     (simp_all add: errors_def overview_page_def exploratory_page_def clustering_page_def
        duration_page_def recommendations_page_def)

lemma errors_render_page: "errors (render_page page df) = []"
  by (simp add: render_page_def errors_body split: option.split) (simp add: errors_def)

lemma errors_sidebar: "errors sidebar = []"
  by (simp add: errors_def sidebar_def)

lemma errors_preamble: "errors preamble = []"
  by (simp add: errors_def preamble_def)

lemma errors_handler: "errors (handler e) = [''Error loading dashboard: '' @ exc_str e]"
  by (simp add: errors_def handler_def)

lemma errors_emitted:
  assumes "emit r us = (out, x)" and "errors us = []"
  shows "errors out = []"
proof -
  from emit_prefix [OF assms(1)] obtain rest where "us = out @ rest" ..
  with assms(2) show ?thesis by (simp add: errors_append)
qed

lemma try_body_load_fails:
  "load_data (storage c) p = (Inl e, p') \<Longrightarrow> try_body c p = (([], Some e), p')"
  by (simp add: try_body_def)

lemma try_body_loaded:
  "load_data (storage c) p = (Inr df, p') \<Longrightarrow>
   try_body c p = (emit (raises c) (sidebar @ render_page (selection c) df), p')"
  by (simp add: try_body_def)

lemma errors_try_body:
  assumes "try_body c p = ((out, x), p')"
  shows "errors out = []"
proof (cases "load_data (storage c) p")
  case (Pair r q)
  show ?thesis
  proof (cases r)
    case (Inl e)
    with Pair assms show ?thesis by (auto simp add: try_body_def errors_def)
  next
    case (Inr df)
    with Pair assms have "emit (raises c) (sidebar @ render_page (selection c) df) = (out, x)"
      by (simp add: try_body_def)
    then show ?thesis
      by (rule errors_emitted) (simp add: errors_append errors_sidebar errors_render_page)
  qed
qed

lemma load_data_absent:
  assumes "cache p = None" and "fs ''netflix_clean.csv'' = Absent"
  shows "load_data fs p =
    (Inl \<lparr>exc_class = ''FileNotFoundError'',
          exc_str = ''[Errno 2] No such file or directory: '' @ repr ''netflix_clean.csv''\<rparr>,
     p\<lparr>reads := Suc (reads p)\<rparr>)"
  using assms by (simp add: load_data_def read_csv_def)

lemma script_raised:
  assumes pre: "emit (raises c) preamble = (preamble, None)"
      and tb: "try_body c p = ((out, Some e), p')"
      and err: "raises c (Body, Error (''Error loading dashboard: '' @ exc_str e)) = None"
  shows "script c p = (\<lparr>shown = preamble @ out @ handler e, uncaught = None\<rparr>, p')"
  using assms by (simp add: script_def handler_def)

lemma metrics_append: "metrics (xs @ ys) = metrics xs @ metrics ys"
  by (simp add: metrics_def)

lemma previews_append: "previews (xs @ ys) = previews xs @ previews ys"
  by (simp add: previews_def)

lemma tables_append: "tables (xs @ ys) = tables xs @ tables ys"
  by (simp add: tables_def)

lemma charts_append: "charts (xs @ ys) = charts xs @ charts ys"
  by (simp add: charts_def)

lemma radios_append: "radios (xs @ ys) = radios xs @ radios ys"
  by (simp add: radios_def)

lemma radios_preamble: "radios preamble = []"
  by (simp add: radios_def preamble_def)

lemma radios_handler: "radios (handler e) = []"
  by (simp add: radios_def handler_def)


lemma render_page_overview: "render_page ''Overview'' df = overview_page df"
  by (simp add: render_page_def chain_def)

lemma render_page_clustering: "render_page ''Content Clustering'' df = clustering_page"
  by (simp add: render_page_def chain_def)


lemma frame_plain:
  "metrics preamble = []" "metrics sidebar = []"
  "previews preamble = []" "previews sidebar = []"
  "tables preamble = []" "tables sidebar = []"
  "charts preamble = []" "charts sidebar = []"
  by (simp_all add: metrics_def previews_def tables_def charts_def preamble_def sidebar_def)

lemma metrics_overview:
  "metrics (overview_page df) =
     [(''Total Titles'', Num 8706), (''Movies'', Num 6128), (''TV Shows'', Num 2578)]"
  by (simp add: metrics_def overview_page_def)

lemma previews_overview: "previews (overview_page df) = [head 10 df]"
  by (simp add: previews_def overview_page_def)

lemma script_clean:
  assumes "load_data (storage c) p = (Inr df, p')" and "raises c = no_faults"
  shows "script c p =
    (\<lparr>shown = preamble @ sidebar @ render_page (selection c) df, uncaught = None\<rparr>, p')"
  using assms by (simp add: script_def try_body_def emit_no_faults)

subsection \<open>The top-level handler\<close>

text \<open>
  Claim C1, as the script behaves. An exception raised inside the \<^verbatim>\<open>try\<close> block (by
  the load, the sidebar or the page branch) is caught by the one handler and becomes one
  error box, drawn after whatever the cycle had drawn before the exception; nothing leaves
  the script uncaught. When it is the load that raises, nothing of the \<^verbatim>\<open>try\<close> block
  was drawn: the page is the title, the introduction and the error box. In particular a
  missing \<^verbatim>\<open>netflix_clean.csv\<close> with an empty cache gives exactly that page, the box
  carrying the text of the \<^verbatim>\<open>FileNotFoundError\<close>. The title calls and
  \<^verbatim>\<open>st.error\<close> are taken not to raise themselves.
\<close>

theorem exception_in_try_block_shown_once:
  assumes pre: "emit (raises c) preamble = (preamble, None)"
      and tb: "try_body c p = ((out, Some e), p')"
      and err: "raises c (Body, Error (''Error loading dashboard: '' @ exc_str e)) = None"
  shows "script c p = (\<lparr>shown = preamble @ out @ handler e, uncaught = None\<rparr>, p')
       \<and> errors (shown (fst (script c p))) = [''Error loading dashboard: '' @ exc_str e]
       \<and> (\<forall>e' q. load_data (storage c) p = (Inl e', q) \<longrightarrow> out = [] \<and> e = e')
       \<and> (cache p = None \<and> storage c ''netflix_clean.csv'' = Absent \<longrightarrow>
            shown (fst (script c p)) =
              preamble @
              [(Body, Error (''Error loading dashboard: [Errno 2] No such file or directory: '' @
                             repr ''netflix_clean.csv''))])"
proof -
  have s: "script c p = (\<lparr>shown = preamble @ out @ handler e, uncaught = None\<rparr>, p')"
    using assms by (rule script_raised)
  have "errors out = []" using tb by (rule errors_try_body)
  then have once: "errors (shown (fst (script c p))) = [''Error loading dashboard: '' @ exc_str e]"
    by (simp add: s errors_append errors_preamble errors_handler)
  have load: "out = [] \<and> e = e'" if "load_data (storage c) p = (Inl e', q)" for e' q
    using tb try_body_load_fails [OF that] by simp
  have absent: "shown (fst (script c p)) =
      preamble @
      [(Body, Error (''Error loading dashboard: [Errno 2] No such file or directory: '' @
                     repr ''netflix_clean.csv''))]"
    if "cache p = None" and "storage c ''netflix_clean.csv'' = Absent"
  proof -
    from load_data_absent [of p "storage c", OF that] load have "out = []"
      and "exc_str e = ''[Errno 2] No such file or directory: '' @ repr ''netflix_clean.csv''"
      by auto
    then show ?thesis by (simp add: s handler_def)
  qed
  from s once load absent show ?thesis by blast
qed

text \<open>The theorem at a directory without the file, in a process that has loaded nothing.\<close>

theorem exception_in_try_block_shown_once_witness:
  "script \<lparr>storage = no_file, selection = ''Overview'', raises = no_faults\<rparr> fresh =
     (\<lparr>shown = preamble @
         [(Body, Error (''Error loading dashboard: [Errno 2] No such file or directory: '' @
                        repr ''netflix_clean.csv''))],
       uncaught = None\<rparr>,
      \<lparr>cache = None, reads = 1\<rparr>)"
proof -
  let ?c = "\<lparr>storage = no_file, selection = ''Overview'', raises = no_faults\<rparr>"
  let ?e = "\<lparr>exc_class = ''FileNotFoundError'',
          exc_str = ''[Errno 2] No such file or directory: '' @ repr ''netflix_clean.csv''\<rparr>"
  have pre: "emit (raises ?c) preamble = (preamble, None)"
    by (simp add: emit_no_faults)
  have tb: "try_body ?c fresh = (([], Some ?e), \<lparr>cache = None, reads = 1\<rparr>)"
    by (simp add: try_body_def load_data_def read_csv_def fresh_def no_file_def)
  have err: "raises ?c (Body, Error (''Error loading dashboard: '' @ exc_str ?e)) = None"
    by (simp add: no_faults_def)
  from exception_in_try_block_shown_once [OF pre tb err]
  show ?thesis by (simp add: handler_def)
qed

text \<open>
  Claim C1 as stated fails where it says that no page content renders. On the Overview
  page with \<^verbatim>\<open>st.dataframe\<close> raising, the exception is raised during page rendering,
  and the header, the three metrics and the notes drawn before it stay on the page, above
  the error box.
\<close>

theorem page_content_before_exception_stays:
  "snd (fst (try_body \<lparr>storage = holds catalogue, selection = ''Overview'', raises = preview_fails\<rparr> fresh))
     = Some arrow_error
   \<and> script \<lparr>storage = holds catalogue, selection = ''Overview'', raises = preview_fails\<rparr> fresh =
     (\<lparr>shown = preamble @ sidebar @ butlast (overview_page catalogue) @ handler arrow_error,
       uncaught = None\<rparr>,
      \<lparr>cache = Some catalogue, reads = 1\<rparr>)
   \<and> metrics (shown (fst (script \<lparr>storage = holds catalogue, selection = ''Overview'', raises = preview_fails\<rparr> fresh)))
     = [(''Total Titles'', Num 8706), (''Movies'', Num 6128), (''TV Shows'', Num 2578)]"
  by (simp add: script_def try_body_def load_data_def read_csv_def fresh_def holds_def
      preview_fails_def preamble_def sidebar_def render_page_def chain_def overview_page_def
      handler_def metrics_def)

subsection \<open>The page router\<close>

lemma page_headers_overview: "page_headers (overview_page df) = [overview_header]"
  by (simp add: page_headers_def overview_page_def)

lemma page_headers_exploratory: "page_headers exploratory_page = [exploratory_header]"
  by (simp add: page_headers_def exploratory_page_def)

lemma page_headers_clustering: "page_headers clustering_page = [clustering_header]"
  by (simp add: page_headers_def clustering_page_def)

lemma page_headers_duration: "page_headers duration_page = [duration_header]"
  by (simp add: page_headers_def duration_page_def)

lemma page_headers_recommendations: "page_headers recommendations_page = [recommendations_header]"
  by (simp add: page_headers_def recommendations_page_def)

lemmas page_headers_pages =
  page_headers_overview page_headers_exploratory page_headers_clustering page_headers_duration
  page_headers_recommendations

lemma headers_distinct:
  "distinct [overview_header, exploratory_header, clustering_header, duration_header,
             recommendations_header]"
  by (simp add: overview_header_def exploratory_header_def clustering_header_def
      duration_header_def recommendations_header_def)

lemma page_headers_body_inj:
  "page_headers (body b df) = page_headers (body b' df') \<Longrightarrow> b = b'"
  using headers_distinct by (cases b; cases b') (simp_all add: page_headers_pages)

lemma guard_unique: "guard b page \<Longrightarrow> guard b' page \<Longrightarrow> b = b'"
  by (cases b; cases b') simp_all

lemma elif_chain_guard: "guard b page \<Longrightarrow> elif chain page = Some b"
  by (cases b) (simp_all add: chain_def)

lemma elif_chain_Some: "elif chain page = Some b \<Longrightarrow> guard b page"
  by (simp add: chain_def split: if_splits)

lemma nav_choice_guard:
  assumes "page \<in> set nav_choices"
  shows "\<exists>b. guard b page"
proof -
  from assms have "guard Overview page \<or> guard Exploratory_Analysis page
      \<or> guard Content_Clustering page \<or> guard Duration_Prediction page
      \<or> guard Strategic_Recommendations page"
    by (simp add: nav_choices_def)
  then show ?thesis by blast
qed

lemma guard_nav_choice: "guard b page \<Longrightarrow> page \<in> set nav_choices"
  by (cases b) (simp_all add: nav_choices_def)

text \<open>
  Claim C2. For a navigation value among the five that the selector offers, exactly one
  guard of the chain holds, the chain selects that branch, and the router's output is the
  body of that branch and of no other: the branches are told apart by their headers, and
  the page header drawn is not that of any other branch. A cycle that loads the table,
  with no call raising, shows the title, the sidebar and that one body.
\<close>

theorem router_runs_exactly_one_branch:
  assumes "page \<in> set nav_choices"
  shows "\<exists>b. guard b page \<and> (\<forall>b'. guard b' page \<longrightarrow> b' = b)
           \<and> elif chain page = Some b
           \<and> render_page page df = body b df
           \<and> (\<forall>b'. b' \<noteq> b \<longrightarrow> page_headers (render_page page df) \<noteq> page_headers (body b' df))
           \<and> (\<forall>c p p'. selection c = page \<and> load_data (storage c) p = (Inr df, p')
                  \<and> raises c = no_faults \<longrightarrow>
                script c p = (\<lparr>shown = preamble @ sidebar @ body b df, uncaught = None\<rparr>, p'))"
proof -
  from assms obtain b where g: "guard b page" using nav_choice_guard by blast
  have u: "\<forall>b'. guard b' page \<longrightarrow> b' = b" using g guard_unique by blast
  have e: "elif chain page = Some b" using g by (rule elif_chain_guard)
  then have r: "render_page page df = body b df" by (simp add: render_page_def)
  have d: "\<forall>b'. b' \<noteq> b \<longrightarrow> page_headers (render_page page df) \<noteq> page_headers (body b' df)"
    unfolding r using page_headers_body_inj by blast
  have s: "script c p = (\<lparr>shown = preamble @ sidebar @ body b df, uncaught = None\<rparr>, p')"
    if "selection c = page" and "load_data (storage c) p = (Inr df, p')" and "raises c = no_faults"
    for c p p'
    using script_clean [OF that(2,3)] that(1) r by simp
  from g u e r d s show ?thesis by blast
qed

text \<open>The theorem at the value \<^verbatim>\<open>Content Clustering\<close>.\<close>

theorem router_runs_exactly_one_branch_witness:
  "''Content Clustering'' \<in> set nav_choices
   \<and> elif chain ''Content Clustering'' = Some Content_Clustering
   \<and> render_page ''Content Clustering'' catalogue = clustering_page
   \<and> page_headers (render_page ''Content Clustering'' catalogue)
       \<noteq> page_headers (body Overview catalogue)
   \<and> script \<lparr>storage = holds catalogue, selection = ''Content Clustering'', raises = no_faults\<rparr> fresh
       = (\<lparr>shown = preamble @ sidebar @ clustering_page, uncaught = None\<rparr>,
          \<lparr>cache = Some catalogue, reads = 1\<rparr>)"
proof -
  let ?c = "\<lparr>storage = holds catalogue, selection = ''Content Clustering'', raises = no_faults\<rparr>"
  have m: "''Content Clustering'' \<in> set nav_choices" by (simp add: nav_choices_def)
  have l: "load_data (storage ?c) fresh = (Inr catalogue, \<lparr>cache = Some catalogue, reads = 1\<rparr>)"
    by (simp add: load_data_def read_csv_def holds_def fresh_def)
  from router_runs_exactly_one_branch [OF m, of catalogue]
  obtain b where g: "guard b ''Content Clustering''"
    and u: "\<forall>b'. guard b' ''Content Clustering'' \<longrightarrow> b' = b"
    and e: "elif chain ''Content Clustering'' = Some b"
    and r: "render_page ''Content Clustering'' catalogue = body b catalogue"
    and d: "\<forall>b'. b' \<noteq> b \<longrightarrow>
      page_headers (render_page ''Content Clustering'' catalogue) \<noteq> page_headers (body b' catalogue)"
    and s: "\<forall>c p p'. selection c = ''Content Clustering''
        \<and> load_data (storage c) p = (Inr catalogue, p') \<and> raises c = no_faults \<longrightarrow>
        script c p = (\<lparr>shown = preamble @ sidebar @ body b catalogue, uncaught = None\<rparr>, p')"
    by blast
  have "guard Content_Clustering ''Content Clustering''" by simp
  with u have b: "b = Content_Clustering" by blast
  from d b have h: "page_headers (render_page ''Content Clustering'' catalogue)
      \<noteq> page_headers (body Overview catalogue)" by blast
  from s l have "script ?c fresh =
      (\<lparr>shown = preamble @ sidebar @ body b catalogue, uncaught = None\<rparr>,
       \<lparr>cache = Some catalogue, reads = 1\<rparr>)"
    by simp
  with m e r b h show ?thesis by simp
qed

text \<open>
  Claim C7. For a navigation value that is none of the five, no guard holds and the router
  draws nothing; with the table loaded and no call raising, the cycle ends with the
  title, the introduction and the sidebar on the page, no error box, and no exception
  leaving the script.
\<close>

theorem unknown_page_renders_nothing:
  assumes "selection c \<notin> set nav_choices"
      and "load_data (storage c) p = (Inr df, p')"
      and "raises c = no_faults"
  shows "(\<forall>b. \<not> guard b (selection c))
       \<and> render_page (selection c) df = []
       \<and> script c p = (\<lparr>shown = preamble @ sidebar, uncaught = None\<rparr>, p')
       \<and> errors (shown (fst (script c p))) = []"
proof -
  have n: "\<forall>b. \<not> guard b (selection c)" using assms(1) guard_nav_choice by blast
  have "elif chain (selection c) = None"
  proof (cases "elif chain (selection c)")
    case (Some b)
    then have "guard b (selection c)" by (rule elif_chain_Some)
    with n show ?thesis by blast
  qed
  then have r: "render_page (selection c) df = []" by (simp add: render_page_def)
  have s: "script c p = (\<lparr>shown = preamble @ sidebar, uncaught = None\<rparr>, p')"
    using script_clean [OF assms(2,3)] r by simp
  have "errors (shown (fst (script c p))) = []"
    by (simp add: s errors_append errors_preamble errors_sidebar)
  with n r s show ?thesis by blast
qed

text \<open>The theorem at the value \<^verbatim>\<open>Settings\<close>.\<close>

theorem unknown_page_renders_nothing_witness:
  "script \<lparr>storage = holds catalogue, selection = ''Settings'', raises = no_faults\<rparr> fresh =
     (\<lparr>shown = preamble @ sidebar, uncaught = None\<rparr>, \<lparr>cache = Some catalogue, reads = 1\<rparr>)"
proof -
  let ?c = "\<lparr>storage = holds catalogue, selection = ''Settings'', raises = no_faults\<rparr>"
  have a: "selection ?c \<notin> set nav_choices" by (simp add: nav_choices_def)
  have b: "load_data (storage ?c) fresh = (Inr catalogue, \<lparr>cache = Some catalogue, reads = 1\<rparr>)"
    by (simp add: load_data_def read_csv_def holds_def fresh_def)
  have c: "raises ?c = no_faults" by simp
  from unknown_page_renders_nothing [OF a b c] show ?thesis by blast
qed

subsection \<open>The memoised loader\<close>

lemma load_data_cached: "cache p = Some df \<Longrightarrow> load_data fs p = (Inr df, p)"
  by (simp add: load_data_def)

lemma load_data_fills_cache: "load_data fs p = (Inr df, p') \<Longrightarrow> cache p' = Some df"
  by (auto simp add: load_data_def split: option.splits sum.splits)

lemma loads_cached: "cache p = Some df \<Longrightarrow> loads fss p = (replicate (length fss) (Inr df), p)"
  by (induction fss) (simp_all add: load_data_cached)

lemma script_keeps_cache:
  assumes "cache p = Some df"
  shows "snd (script c p) = p"
  using assms
  by (simp add: script_def try_body_def load_data_cached split: prod.split option.split)

text \<open>
  Claim C3. Once an invocation of the loader has returned a table, the next invocation
  and every later one returns the same table, hence the same rows and columns, and
  leaves the count of reads of the file where it was: the file is read at most once.
  This holds whatever the file has become in between, so in particular for an unchanged
  source; and no later cycle of the script removes the entry.
\<close>

theorem load_data_memoised:
  assumes "load_data fs p = (Inr df, p')"
  shows "load_data fs p' = (Inr df, p')
       \<and> loads fss p' = (replicate (length fss) (Inr df), p')
       \<and> reads (snd (loads fss p')) = reads p'
       \<and> snd (script c p') = p'"
proof -
  from assms have "cache p' = Some df" by (rule load_data_fills_cache)
  then show ?thesis by (simp add: load_data_cached loads_cached script_keeps_cache)
qed

text \<open>
  The theorem after a first load of the catalogue: four more invocations, the file
  unchanged, replaced and removed, and one more cycle of the script.
\<close>

theorem load_data_memoised_witness:
  "load_data (holds catalogue) fresh = (Inr catalogue, \<lparr>cache = Some catalogue, reads = 1\<rparr>)
   \<and> loads [holds catalogue, holds catalogue, holds ledger, no_file]
        \<lparr>cache = Some catalogue, reads = 1\<rparr> =
      ([Inr catalogue, Inr catalogue, Inr catalogue, Inr catalogue],
       \<lparr>cache = Some catalogue, reads = 1\<rparr>)
   \<and> snd (script \<lparr>storage = no_file, selection = ''Overview'', raises = no_faults\<rparr>
             \<lparr>cache = Some catalogue, reads = 1\<rparr>) = \<lparr>cache = Some catalogue, reads = 1\<rparr>"
proof -
  have a: "load_data (holds catalogue) fresh = (Inr catalogue, \<lparr>cache = Some catalogue, reads = 1\<rparr>)"
    by (simp add: load_data_def read_csv_def holds_def fresh_def)
  from load_data_memoised [OF a, of "[holds catalogue, holds catalogue, holds ledger, no_file]"
      "\<lparr>storage = no_file, selection = ''Overview'', raises = no_faults\<rparr>"] a
  show ?thesis by (simp del: loads.simps)
qed

subsection \<open>The pages\<close>

lemma cluster_table:
  "df_T (DataFrame cluster_summary) =
     \<lparr>index = [Str ''Cluster 0'', Str ''Cluster 1'', Str ''Cluster 2'', Str ''Cluster 3''],
      columns = [Str ''Year'', Str ''Duration'', Str ''Type'', Str ''Segment''],
      rows = [[Num 2014, Str ''106 min'', Str ''Movie'', Str ''Mainstream Movies''],
              [Num 2016, Str ''90 min'', Str ''Movie'', Str ''Recent Indie/Short Films''],
              [Num 2017, Str ''1.7 Seasons'', Str ''TV Show'', Str ''Modern Episodic Content''],
              [Num 1985, Str ''112 min'', Str ''Movie'', Str ''Classic Library Content'']]\<rparr>"
  by code_simp




lemma tables_clustering: "tables clustering_page = [df_T (DataFrame cluster_summary)]"
  by (simp add: tables_def clustering_page_def)

lemma segment_column:
  "column (df_T (DataFrame cluster_summary)) (Str ''Segment'') =
     [Str ''Mainstream Movies'', Str ''Recent Indie/Short Films'', Str ''Modern Episodic Content'',
      Str ''Classic Library Content'']"
  by (simp add: cluster_table column_def)

text \<open>
  Claim C6. On the Content Clustering page, with the table loaded and no call raising, the
  page shows one table, of four rows labelled Cluster 0 to Cluster 3, whose Segment column
  reads Mainstream Movies, Recent Indie/Short Films, Modern Episodic Content, Classic
  Library Content, in this order. The page is the same for every loaded table: it is built
  from the literal \<^verbatim>\<open>cluster_summary\<close> alone.
\<close>

theorem clustering_table_literal:
  assumes "selection c = ''Content Clustering''"
      and "load_data (storage c) p = (Inr df, p')"
      and "raises c = no_faults"
  shows "script c p = (\<lparr>shown = preamble @ sidebar @ clustering_page, uncaught = None\<rparr>, p')
       \<and> (\<exists>t. tables (shown (fst (script c p))) = [t]
              \<and> length (rows t) = 4
              \<and> index t = [Str ''Cluster 0'', Str ''Cluster 1'', Str ''Cluster 2'', Str ''Cluster 3'']
              \<and> column t (Str ''Segment'') =
                  [Str ''Mainstream Movies'', Str ''Recent Indie/Short Films'',
                   Str ''Modern Episodic Content'', Str ''Classic Library Content''])"
proof -
  have s: "script c p = (\<lparr>shown = preamble @ sidebar @ clustering_page, uncaught = None\<rparr>, p')"
    using script_clean [OF assms(2,3)] assms(1) by (simp add: render_page_clustering)
  have t: "tables (shown (fst (script c p))) = [df_T (DataFrame cluster_summary)]"
    by (simp add: s tables_append frame_plain tables_clustering)
  have "length (rows (df_T (DataFrame cluster_summary))) = 4"
    and "index (df_T (DataFrame cluster_summary)) =
      [Str ''Cluster 0'', Str ''Cluster 1'', Str ''Cluster 2'', Str ''Cluster 3'']"
    by (simp_all add: cluster_table)
  with s t segment_column show ?thesis by blast
qed

text \<open>The theorem at a cycle that loads the catalogue: the table in full.\<close>

theorem clustering_table_literal_witness:
  "tables (shown (fst (script \<lparr>storage = holds catalogue, selection = ''Content Clustering'', raises = no_faults\<rparr> fresh)))
     = [\<lparr>index = [Str ''Cluster 0'', Str ''Cluster 1'', Str ''Cluster 2'', Str ''Cluster 3''],
         columns = [Str ''Year'', Str ''Duration'', Str ''Type'', Str ''Segment''],
         rows = [[Num 2014, Str ''106 min'', Str ''Movie'', Str ''Mainstream Movies''],
                 [Num 2016, Str ''90 min'', Str ''Movie'', Str ''Recent Indie/Short Films''],
                 [Num 2017, Str ''1.7 Seasons'', Str ''TV Show'', Str ''Modern Episodic Content''],
                 [Num 1985, Str ''112 min'', Str ''Movie'', Str ''Classic Library Content'']]\<rparr>]"
proof -
  let ?c = "\<lparr>storage = holds catalogue, selection = ''Content Clustering'', raises = no_faults\<rparr>"
  have a: "selection ?c = ''Content Clustering''" by simp
  have b: "load_data (storage ?c) fresh = (Inr catalogue, \<lparr>cache = Some catalogue, reads = 1\<rparr>)"
    by (simp add: load_data_def read_csv_def holds_def fresh_def)
  have c: "raises ?c = no_faults" by simp
  from clustering_table_literal [OF a b c]
  have "script ?c fresh =
      (\<lparr>shown = preamble @ sidebar @ clustering_page, uncaught = None\<rparr>,
       \<lparr>cache = Some catalogue, reads = 1\<rparr>)"
    by blast
  then show ?thesis
    by (simp add: tables_append frame_plain tables_clustering cluster_table)
qed

lemma body_other_pages: "b \<noteq> Overview \<Longrightarrow> body b df = body b df'"
  by (cases b) simp_all

lemma previews_body: "previews (body b df) = (if b = Overview then [head 10 df] else [])"
  by (cases b)
     (simp_all add: previews_overview,
      simp_all add: previews_def exploratory_page_def clustering_page_def duration_page_def
        recommendations_page_def)

lemma previews_render_page:
  "previews (render_page s df) = (if s = ''Overview'' then [head 10 df] else [])"
proof (cases "elif chain s")
  case None
  then have "\<not> guard Overview s" using elif_chain_guard [of Overview s] by auto
  with None show ?thesis by (simp add: render_page_def previews_def)
next
  case (Some b)
  then have g: "guard b s" by (rule elif_chain_Some)
  have "b = Overview \<longleftrightarrow> s = ''Overview''"
  proof
    assume "b = Overview" with g show "s = ''Overview''" by simp
  next
    assume "s = ''Overview''"
    then have "guard Overview s" by simp
    with g show "b = Overview" by (rule guard_unique)
  qed
  with Some show ?thesis by (simp add: render_page_def previews_body)
qed

lemma render_page_other_pages:
  assumes "s \<noteq> ''Overview''"
  shows "render_page s df = render_page s df'"
proof (cases "elif chain s")
  case None
  then show ?thesis by (simp add: render_page_def)
next
  case (Some b)
  then have "guard b s" by (rule elif_chain_Some)
  with assms have "b \<noteq> Overview" by auto
  with Some show ?thesis using body_other_pages [of b df df'] by (simp add: render_page_def)
qed

subsection \<open>Cycles in which only \<^verbatim>\<open>st.dataframe\<close> may raise\<close>

text \<open>
  Of the calls of the script, \<^verbatim>\<open>st.dataframe\<close> alone is handed the loaded table. The
  lemmas below describe a cycle in which every other call draws, whatever
  \<^verbatim>\<open>st.dataframe\<close> does with the table.
\<close>

lemma emit_all_draw: "\<forall>u \<in> set us. r u = None \<Longrightarrow> emit r us = (us, None)"
  by (induction us) simp_all

lemma emit_after_drawn:
  "\<forall>u \<in> set xs. r u = None \<Longrightarrow>
   emit r (xs @ ys) = (case emit r ys of (out, x) \<Rightarrow> (xs @ out, x))"
  by (induction xs) (simp_all split: prod.split)

lemma previews_Nil: "previews us = [] \<Longrightarrow> \<forall>u \<in> set us. preview_of u = []"
  by (simp add: previews_def)

lemma draws:
  assumes "\<forall>u. preview_of u = [] \<longrightarrow> r u = None" and "previews us = []"
  shows "emit r us = (us, None)"
  using assms previews_Nil [of us] by (intro emit_all_draw) blast

lemma draws_then:
  assumes "\<forall>u. preview_of u = [] \<longrightarrow> r u = None" and "previews xs = []"
  shows "emit r (xs @ ys) = (case emit r ys of (out, x) \<Rightarrow> (xs @ out, x))"
  using assms previews_Nil [of xs] by (intro emit_after_drawn) blast

lemma overview_page_split:
  "overview_page df = butlast (overview_page df) @ [(Body, Dataframe (head 10 df))]"
  by (simp add: overview_page_def)

lemma overview_page_fixed: "butlast (overview_page df) = butlast (overview_page df')"
  by (simp add: overview_page_def)

lemma overview_fixed_plain:
  "previews (butlast (overview_page df)) = []"
  "errors (butlast (overview_page df)) = []"
  "metrics (butlast (overview_page df)) =
     [(''Total Titles'', Num 8706), (''Movies'', Num 6128), (''TV Shows'', Num 2578)]"
  by (simp_all add: previews_def errors_def metrics_def overview_page_def)

lemma handler_plain:
  "previews (handler e) = []" "metrics (handler e) = []"
  by (simp_all add: previews_def metrics_def handler_def)

lemma errors_body_plain: "errors (overview_page df) = []"
  using errors_body [of Overview df] by simp

lemma script_other_pages:
  assumes ok: "\<forall>u. preview_of u = [] \<longrightarrow> raises c u = None"
      and l: "load_data (storage c) p = (Inr df, q)"
      and s: "selection c \<noteq> ''Overview''"
  shows "script c p =
    (\<lparr>shown = preamble @ sidebar @ render_page (selection c) df, uncaught = None\<rparr>, q)"
proof -
  have pre: "emit (raises c) preamble = (preamble, None)"
    using ok by (rule draws) (simp add: frame_plain)
  have "previews (sidebar @ render_page (selection c) df) = []"
    using s by (simp add: previews_append frame_plain previews_render_page)
  with ok have "emit (raises c) (sidebar @ render_page (selection c) df) =
      (sidebar @ render_page (selection c) df, None)"
    by (rule draws)
  with pre l show ?thesis by (simp add: script_def try_body_def)
qed

lemma script_overview:
  assumes ok: "\<forall>u. preview_of u = [] \<longrightarrow> raises c u = None"
      and l: "load_data (storage c) p = (Inr df, q)"
      and s: "selection c = ''Overview''"
  shows "script c p =
    (\<lparr>shown = preamble @ sidebar @ butlast (overview_page df) @
        (case raises c (Body, Dataframe (head 10 df)) of
           None \<Rightarrow> [(Body, Dataframe (head 10 df))]
         | Some e \<Rightarrow> handler e),
      uncaught = None\<rparr>, q)"
proof -
  have pre: "emit (raises c) preamble = (preamble, None)"
    using ok by (rule draws) (simp add: frame_plain)
  have h: "emit (raises c) (handler e) = (handler e, None)" for e
    using ok by (rule draws) (simp add: handler_plain)
  have "previews (sidebar @ butlast (overview_page df)) = []"
    by (simp add: previews_append frame_plain overview_fixed_plain)
  with ok have "emit (raises c) ((sidebar @ butlast (overview_page df)) @ [(Body, Dataframe (head 10 df))]) =
      (case emit (raises c) [(Body, Dataframe (head 10 df))] of
         (out, x) \<Rightarrow> ((sidebar @ butlast (overview_page df)) @ out, x))"
    by (rule draws_then)
  then have t: "emit (raises c) (sidebar @ render_page (selection c) df) =
      (case emit (raises c) [(Body, Dataframe (head 10 df))] of
         (out, x) \<Rightarrow> ((sidebar @ butlast (overview_page df)) @ out, x))"
    using overview_page_split [of df] by (simp add: s render_page_overview)
  show ?thesis
  proof (cases "raises c (Body, Dataframe (head 10 df))")
    case None
    with pre l t show ?thesis by (simp add: script_def try_body_def)
  next
    case (Some e)
    with pre l t h [of e] show ?thesis by (simp add: script_def try_body_def)
  qed
qed

lemma wide_int_fails_fixed: "\<forall>u. preview_of u = [] \<longrightarrow> wide_int_fails u = None"
proof (intro allI impI)
  fix u :: ui
  assume a: "preview_of u = []"
  obtain w e where u: "u = (w, e)" by (cases u)
  from a show "wide_int_fails u = None"
    unfolding u by (cases e) (simp_all add: wide_int_fails_def)
qed

lemma head_ledger:
  "head 10 ledger =
     \<lparr>index = [Num 0, Num 1, Num 2, Num 3, Num 4, Num 5, Num 6, Num 7, Num 8, Num 9],
      columns = [Str ''amount''],
      rows = [[Num 5], [Num 8], [Num 13], [Num 21], [Num 34], [Num 55], [Num 89], [Num 144],
              [Num 233], [Num 377]]\<rparr>"
  by (simp add: head_def ledger_def)

lemma head_small: "head 10 catalogue = catalogue" "head 10 register = register"
  by (simp_all add: head_def catalogue_def register_def)

lemma wide_int_fails_examples:
  "wide_int_fails (Body, Dataframe (head 10 ledger)) = None"
  "wide_int_fails (Body, Dataframe catalogue) = None"
  "wide_int_fails (Body, Dataframe register) = Some overflow_error"
  by (simp_all add: wide_int_fails_def head_ledger catalogue_def register_def fits_64_bits_def)

lemma load_data_holds:
  "load_data (holds df) fresh = (Inr df, \<lparr>cache = Some df, reads = 1\<rparr>)"
  by (simp add: load_data_def read_csv_def holds_def fresh_def)

text \<open>
  Claim C4, as the script behaves. On the Overview page, with the table loaded and every
  call but \<^verbatim>\<open>st.dataframe\<close> drawing, the page shows exactly three metrics, 8706, 6128
  and 2578 under their labels, the same for every table and whatever becomes of the
  preview. When \<^verbatim>\<open>st.dataframe\<close> accepts the first ten rows of the loaded table, the
  page shows them as its one preview, under all the columns, and no error box. When
  \<^verbatim>\<open>st.dataframe\<close> raises on them, the page has no preview, and one error box with the
  text of that exception.
\<close>

theorem overview_metrics_and_preview:
  assumes "selection c = ''Overview''"
      and "load_data (storage c) p = (Inr df, p')"
      and "\<forall>u. preview_of u = [] \<longrightarrow> raises c u = None"
  shows "metrics (shown (fst (script c p))) =
           [(''Total Titles'', Num 8706), (''Movies'', Num 6128), (''TV Shows'', Num 2578)]
       \<and> uncaught (fst (script c p)) = None
       \<and> (raises c (Body, Dataframe (head 10 df)) = None \<longrightarrow>
            script c p = (\<lparr>shown = preamble @ sidebar @ overview_page df, uncaught = None\<rparr>, p')
            \<and> previews (shown (fst (script c p))) = [head 10 df]
            \<and> errors (shown (fst (script c p))) = [])
       \<and> (\<forall>e. raises c (Body, Dataframe (head 10 df)) = Some e \<longrightarrow>
            previews (shown (fst (script c p))) = []
            \<and> errors (shown (fst (script c p))) = [''Error loading dashboard: '' @ exc_str e])
       \<and> index (head 10 df) = take 10 (index df)
       \<and> rows (head 10 df) = take 10 (rows df)
       \<and> columns (head 10 df) = columns df"
proof -
  note s = script_overview [OF assms(3,2,1)]
  have m: "metrics (shown (fst (script c p))) =
      [(''Total Titles'', Num 8706), (''Movies'', Num 6128), (''TV Shows'', Num 2578)]"
    by (cases "raises c (Body, Dataframe (head 10 df))")
       (simp_all add: s metrics_append frame_plain overview_fixed_plain handler_plain,
        simp add: metrics_def)
  have u: "uncaught (fst (script c p)) = None" by (simp add: s)
  have a: "script c p = (\<lparr>shown = preamble @ sidebar @ overview_page df, uncaught = None\<rparr>, p')
      \<and> previews (shown (fst (script c p))) = [head 10 df]
      \<and> errors (shown (fst (script c p))) = []"
    if "raises c (Body, Dataframe (head 10 df)) = None"
    using that overview_page_split [of df]
    by (simp add: s previews_append errors_append frame_plain previews_overview
        errors_preamble errors_sidebar errors_body_plain)
  have r: "previews (shown (fst (script c p))) = []
      \<and> errors (shown (fst (script c p))) = [''Error loading dashboard: '' @ exc_str e]"
    if "raises c (Body, Dataframe (head 10 df)) = Some e" for e
    using that
    by (simp add: s previews_append errors_append frame_plain overview_fixed_plain
        handler_plain errors_preamble errors_sidebar errors_handler)
  have h: "index (head 10 df) = take 10 (index df) \<and> rows (head 10 df) = take 10 (rows df)
      \<and> columns (head 10 df) = columns df"
    by (simp add: head_def)
  from m u a r h show ?thesis by blast
qed

text \<open>
  The theorem at the ledger, a table of twelve rows that \<^verbatim>\<open>st.dataframe\<close> accepts: the
  metrics are the three literals, the preview stops after the tenth row.
\<close>

theorem overview_metrics_and_preview_witness:
  "metrics (shown (fst (script \<lparr>storage = holds ledger, selection = ''Overview'', raises = wide_int_fails\<rparr> fresh)))
     = [(''Total Titles'', Num 8706), (''Movies'', Num 6128), (''TV Shows'', Num 2578)]
   \<and> previews (shown (fst (script \<lparr>storage = holds ledger, selection = ''Overview'', raises = wide_int_fails\<rparr> fresh)))
     = [\<lparr>index = [Num 0, Num 1, Num 2, Num 3, Num 4, Num 5, Num 6, Num 7, Num 8, Num 9],
         columns = [Str ''amount''],
         rows = [[Num 5], [Num 8], [Num 13], [Num 21], [Num 34], [Num 55], [Num 89], [Num 144],
                 [Num 233], [Num 377]]\<rparr>]
   \<and> errors (shown (fst (script \<lparr>storage = holds ledger, selection = ''Overview'', raises = wide_int_fails\<rparr> fresh)))
     = []"
proof -
  let ?c = "\<lparr>storage = holds ledger, selection = ''Overview'', raises = wide_int_fails\<rparr>"
  have a: "selection ?c = ''Overview''" by simp
  have b: "load_data (storage ?c) fresh = (Inr ledger, \<lparr>cache = Some ledger, reads = 1\<rparr>)"
    by (simp add: load_data_holds)
  have c: "\<forall>u. preview_of u = [] \<longrightarrow> raises ?c u = None"
    using wide_int_fails_fixed by simp
  have d: "raises ?c (Body, Dataframe (head 10 ledger)) = None"
    by (simp add: wide_int_fails_examples)
  from overview_metrics_and_preview [OF a b c] d
  have "metrics (shown (fst (script ?c fresh))) =
      [(''Total Titles'', Num 8706), (''Movies'', Num 6128), (''TV Shows'', Num 2578)]"
    and "previews (shown (fst (script ?c fresh))) = [head 10 ledger]"
    and "errors (shown (fst (script ?c fresh))) = []"
    by blast+
  then show ?thesis by (simp add: head_ledger)
qed

text \<open>
  Claim C4 as stated fails where it says that the page contains the preview. The register
  loads, \<^verbatim>\<open>st.dataframe\<close> raises on its number beyond 64 bits, and the Overview page
  shows no preview but the error box; the same \<^verbatim>\<open>st.dataframe\<close> previews the
  catalogue.
\<close>

theorem overview_without_preview:
  "load_data (holds register) fresh = (Inr register, \<lparr>cache = Some register, reads = 1\<rparr>)
   \<and> previews (shown (fst (script \<lparr>storage = holds register, selection = ''Overview'', raises = wide_int_fails\<rparr> fresh)))
     = []
   \<and> errors (shown (fst (script \<lparr>storage = holds register, selection = ''Overview'', raises = wide_int_fails\<rparr> fresh)))
     = [''Error loading dashboard: Python int too large to convert to C long'']
   \<and> previews (shown (fst (script \<lparr>storage = holds catalogue, selection = ''Overview'', raises = wide_int_fails\<rparr> fresh)))
     = [catalogue]"
proof -
  let ?c = "\<lparr>storage = holds register, selection = ''Overview'', raises = wide_int_fails\<rparr>"
  let ?d = "\<lparr>storage = holds catalogue, selection = ''Overview'', raises = wide_int_fails\<rparr>"
  have ok: "\<forall>u. preview_of u = [] \<longrightarrow> raises ?c u = None"
    "\<forall>u. preview_of u = [] \<longrightarrow> raises ?d u = None"
    using wide_int_fails_fixed by simp_all
  have l: "load_data (storage ?c) fresh = (Inr register, \<lparr>cache = Some register, reads = 1\<rparr>)"
    "load_data (storage ?d) fresh = (Inr catalogue, \<lparr>cache = Some catalogue, reads = 1\<rparr>)"
    by (simp_all add: load_data_holds)
  have "shown (fst (script ?c fresh)) =
      preamble @ sidebar @ butlast (overview_page register) @ handler overflow_error"
    using script_overview [OF ok(1) l(1)] by (simp add: head_small wide_int_fails_examples)
  then have 1: "previews (shown (fst (script ?c fresh))) = []"
    and 2: "errors (shown (fst (script ?c fresh))) =
      [''Error loading dashboard: Python int too large to convert to C long'']"
    by (simp_all add: previews_append errors_append frame_plain overview_fixed_plain
        handler_plain errors_preamble errors_sidebar errors_handler overflow_error_def)
  have "shown (fst (script ?d fresh)) =
      preamble @ sidebar @ butlast (overview_page catalogue) @ [(Body, Dataframe catalogue)]"
    using script_overview [OF ok(2) l(2)] by (simp add: head_small wide_int_fails_examples)
  then have 3: "previews (shown (fst (script ?d fresh))) = [catalogue]"
    by (simp add: previews_append frame_plain overview_fixed_plain) (simp add: previews_def)
  from l(1) 1 2 3 show ?thesis by simp
qed

lemma fixed_part_append: "fixed_part (xs @ ys) = fixed_part xs @ fixed_part ys"
  by (simp add: fixed_part_def)

lemma fixed_part_preview: "fixed_part [(w, Dataframe d)] = []"
  by (simp add: fixed_part_def)

lemma fixed_part_handler: "fixed_part (handler e) = []"
  by (simp add: fixed_part_def handler_def)

lemma metrics_fixed_part: "metrics (fixed_part out) = metrics out"
proof (induction out)
  case Nil
  show ?case by (simp add: metrics_def fixed_part_def)
next
  case (Cons u out)
  obtain w e where u: "u = (w, e)" by (cases u)
  from Cons show ?case
    unfolding u by (cases e) (simp_all add: metrics_def fixed_part_def)
qed

lemma charts_fixed_part: "charts (fixed_part out) = charts out"
proof (induction out)
  case Nil
  show ?case by (simp add: charts_def fixed_part_def)
next
  case (Cons u out)
  obtain w e where u: "u = (w, e)" by (cases u)
  from Cons show ?case
    unfolding u by (cases e) (simp_all add: charts_def fixed_part_def)
qed

lemma tables_fixed_part: "tables (fixed_part out) = tables out"
proof (induction out)
  case Nil
  show ?case by (simp add: tables_def fixed_part_def)
next
  case (Cons u out)
  obtain w e where u: "u = (w, e)" by (cases u)
  from Cons show ?case
    unfolding u by (cases e) (simp_all add: tables_def fixed_part_def)
qed

lemma fixed_part_overview_cycle:
  "fixed_part (preamble @ sidebar @ butlast (overview_page df) @
      (case x of None \<Rightarrow> [(Body, Dataframe d)] | Some e \<Rightarrow> handler e)) =
   fixed_part (preamble @ sidebar @ butlast (overview_page df'))"
  using overview_page_fixed [of df df']
  by (cases x) (simp_all add: fixed_part_append fixed_part_preview fixed_part_handler)

text \<open>
  Claim C8, as the script behaves. Two cycles with the same navigation value, each with a
  table loaded and every call but \<^verbatim>\<open>st.dataframe\<close> drawing, show the same metrics, the
  same figures and the same tables: the same page once previews and error boxes are set
  aside. On every page but the Overview the two cycles show the very same page, without
  preview or error box. On the Overview page the loaded table decides one thing: the
  preview of its first ten rows, or, when \<^verbatim>\<open>st.dataframe\<close> raises on them, the error
  box with that exception in its place.
\<close>

theorem only_preview_or_its_error_depends_on_the_dataset:
  assumes "load_data (storage c1) p1 = (Inr df1, q1)"
      and "load_data (storage c2) p2 = (Inr df2, q2)"
      and "selection c2 = selection c1"
      and "\<forall>u. preview_of u = [] \<longrightarrow> raises c1 u = None"
      and "\<forall>u. preview_of u = [] \<longrightarrow> raises c2 u = None"
  shows "fixed_part (shown (fst (script c1 p1))) = fixed_part (shown (fst (script c2 p2)))
       \<and> metrics (shown (fst (script c1 p1))) = metrics (shown (fst (script c2 p2)))
       \<and> charts (shown (fst (script c1 p1))) = charts (shown (fst (script c2 p2)))
       \<and> tables (shown (fst (script c1 p1))) = tables (shown (fst (script c2 p2)))
       \<and> (selection c1 \<noteq> ''Overview'' \<longrightarrow>
            shown (fst (script c1 p1)) = shown (fst (script c2 p2))
            \<and> previews (shown (fst (script c1 p1))) = []
            \<and> errors (shown (fst (script c1 p1))) = [])
       \<and> (selection c1 = ''Overview'' \<and> raises c1 (Body, Dataframe (head 10 df1)) = None \<longrightarrow>
            previews (shown (fst (script c1 p1))) = [head 10 df1]
            \<and> errors (shown (fst (script c1 p1))) = [])
       \<and> (\<forall>e. selection c1 = ''Overview'' \<and> raises c1 (Body, Dataframe (head 10 df1)) = Some e \<longrightarrow>
            previews (shown (fst (script c1 p1))) = []
            \<and> errors (shown (fst (script c1 p1))) = [''Error loading dashboard: '' @ exc_str e])"
proof -
  let ?s1 = "shown (fst (script c1 p1))" and ?s2 = "shown (fst (script c2 p2))"
  have f: "fixed_part ?s1 = fixed_part ?s2"
  proof (cases "selection c1 = ''Overview''")
    case True
    with assms(3) have o2: "selection c2 = ''Overview''" by simp
    show ?thesis
      using script_overview [OF assms(4,1) True] script_overview [OF assms(5,2) o2]
      by (simp add: fixed_part_overview_cycle [of df1 _ _ df1] fixed_part_overview_cycle [of df2 _ _ df1])
  next
    case False
    with assms(3) have n2: "selection c2 \<noteq> ''Overview''" by simp
    show ?thesis
      using script_other_pages [OF assms(4,1) False] script_other_pages [OF assms(5,2) n2]
        render_page_other_pages [OF False, of df1 df2] assms(3)
      by simp
  qed
  have m: "metrics ?s1 = metrics ?s2"
    using arg_cong [OF f, of metrics] by (simp only: metrics_fixed_part)
  have ch: "charts ?s1 = charts ?s2"
    using arg_cong [OF f, of charts] by (simp only: charts_fixed_part)
  have t: "tables ?s1 = tables ?s2"
    using arg_cong [OF f, of tables] by (simp only: tables_fixed_part)
  have o: "?s1 = ?s2 \<and> previews ?s1 = [] \<and> errors ?s1 = []"
    if n: "selection c1 \<noteq> ''Overview''"
  proof -
    from n assms(3) have n2: "selection c2 \<noteq> ''Overview''" by simp
    show ?thesis
      using script_other_pages [OF assms(4,1) n] script_other_pages [OF assms(5,2) n2]
        render_page_other_pages [OF n, of df1 df2] assms(3) n
      by (simp add: previews_append errors_append frame_plain previews_render_page
          errors_preamble errors_sidebar errors_render_page)
  qed
  have a: "previews ?s1 = [head 10 df1] \<and> errors ?s1 = []"
    if "selection c1 = ''Overview''" and "raises c1 (Body, Dataframe (head 10 df1)) = None"
    using script_overview [OF assms(4,1) that(1)] that(2)
    by (simp add: previews_append errors_append frame_plain overview_fixed_plain
        errors_preamble errors_sidebar)
       (simp add: previews_def errors_def)
  have r: "previews ?s1 = [] \<and> errors ?s1 = [''Error loading dashboard: '' @ exc_str e]"
    if "selection c1 = ''Overview''" and "raises c1 (Body, Dataframe (head 10 df1)) = Some e"
    for e
    using script_overview [OF assms(4,1) that(1)] that(2)
    by (simp add: previews_append errors_append frame_plain overview_fixed_plain
        handler_plain errors_preamble errors_sidebar errors_handler)
  from f m ch t o a r show ?thesis by blast
qed

text \<open>The theorem at the Overview pages of the catalogue and of the register.\<close>

theorem only_preview_or_its_error_depends_on_the_dataset_witness:
  "fixed_part (shown (fst (script \<lparr>storage = holds catalogue, selection = ''Overview'', raises = wide_int_fails\<rparr> fresh)))
     = fixed_part (shown (fst (script \<lparr>storage = holds register, selection = ''Overview'', raises = wide_int_fails\<rparr> fresh)))
   \<and> metrics (shown (fst (script \<lparr>storage = holds catalogue, selection = ''Overview'', raises = wide_int_fails\<rparr> fresh)))
     = metrics (shown (fst (script \<lparr>storage = holds register, selection = ''Overview'', raises = wide_int_fails\<rparr> fresh)))
   \<and> previews (shown (fst (script \<lparr>storage = holds catalogue, selection = ''Overview'', raises = wide_int_fails\<rparr> fresh)))
     = [catalogue]
   \<and> errors (shown (fst (script \<lparr>storage = holds catalogue, selection = ''Overview'', raises = wide_int_fails\<rparr> fresh)))
     = []"
proof -
  let ?c1 = "\<lparr>storage = holds catalogue, selection = ''Overview'', raises = wide_int_fails\<rparr>"
  let ?c2 = "\<lparr>storage = holds register, selection = ''Overview'', raises = wide_int_fails\<rparr>"
  have a: "load_data (storage ?c1) fresh = (Inr catalogue, \<lparr>cache = Some catalogue, reads = 1\<rparr>)"
    by (simp add: load_data_holds)
  have b: "load_data (storage ?c2) fresh = (Inr register, \<lparr>cache = Some register, reads = 1\<rparr>)"
    by (simp add: load_data_holds)
  have c: "selection ?c2 = selection ?c1" by simp
  have d: "\<forall>u. preview_of u = [] \<longrightarrow> raises ?c1 u = None" using wide_int_fails_fixed by simp
  have e: "\<forall>u. preview_of u = [] \<longrightarrow> raises ?c2 u = None" using wide_int_fails_fixed by simp
  have g: "selection ?c1 = ''Overview'' \<and> raises ?c1 (Body, Dataframe (head 10 catalogue)) = None"
    by (simp add: head_small wide_int_fails_examples)
  from only_preview_or_its_error_depends_on_the_dataset [OF a b c d e] g
  have "fixed_part (shown (fst (script ?c1 fresh))) = fixed_part (shown (fst (script ?c2 fresh)))"
    and "metrics (shown (fst (script ?c1 fresh))) = metrics (shown (fst (script ?c2 fresh)))"
    and "previews (shown (fst (script ?c1 fresh))) = [head 10 catalogue]"
    and "errors (shown (fst (script ?c1 fresh))) = []"
    by blast+
  then show ?thesis by (simp add: head_small)
qed

text \<open>
  Claim C8 as stated fails where it says that the preview is the only output that depends
  on the loaded table. The catalogue and the register both load; on the Overview page the
  first gives no error box and the second gives one, so the two pages differ also after
  their previews are removed.
\<close>

theorem error_box_depends_on_the_dataset:
  "load_data (holds catalogue) fresh = (Inr catalogue, \<lparr>cache = Some catalogue, reads = 1\<rparr>)
   \<and> load_data (holds register) fresh = (Inr register, \<lparr>cache = Some register, reads = 1\<rparr>)
   \<and> errors (shown (fst (script \<lparr>storage = holds catalogue, selection = ''Overview'', raises = wide_int_fails\<rparr> fresh)))
     = []
   \<and> errors (shown (fst (script \<lparr>storage = holds register, selection = ''Overview'', raises = wide_int_fails\<rparr> fresh)))
     = [''Error loading dashboard: Python int too large to convert to C long'']
   \<and> without_previews (shown (fst (script \<lparr>storage = holds catalogue, selection = ''Overview'', raises = wide_int_fails\<rparr> fresh)))
     \<noteq> without_previews (shown (fst (script \<lparr>storage = holds register, selection = ''Overview'', raises = wide_int_fails\<rparr> fresh)))"
proof -
  let ?c = "\<lparr>storage = holds register, selection = ''Overview'', raises = wide_int_fails\<rparr>"
  let ?d = "\<lparr>storage = holds catalogue, selection = ''Overview'', raises = wide_int_fails\<rparr>"
  have ok: "\<forall>u. preview_of u = [] \<longrightarrow> raises ?c u = None"
    "\<forall>u. preview_of u = [] \<longrightarrow> raises ?d u = None"
    using wide_int_fails_fixed by simp_all
  have l: "load_data (storage ?c) fresh = (Inr register, \<lparr>cache = Some register, reads = 1\<rparr>)"
    "load_data (storage ?d) fresh = (Inr catalogue, \<lparr>cache = Some catalogue, reads = 1\<rparr>)"
    by (simp_all add: load_data_holds)
  have c: "shown (fst (script ?c fresh)) =
      preamble @ sidebar @ butlast (overview_page register) @ handler overflow_error"
    using script_overview [OF ok(1) l(1)] by (simp add: head_small wide_int_fails_examples)
  have d: "shown (fst (script ?d fresh)) =
      preamble @ sidebar @ butlast (overview_page catalogue) @ [(Body, Dataframe catalogue)]"
    using script_overview [OF ok(2) l(2)] by (simp add: head_small wide_int_fails_examples)
  have 1: "errors (shown (fst (script ?d fresh))) = []"
    unfolding d
    by (simp add: errors_append errors_preamble errors_sidebar overview_fixed_plain)
       (simp add: errors_def)
  have 2: "errors (shown (fst (script ?c fresh))) =
      [''Error loading dashboard: Python int too large to convert to C long'']"
    unfolding c
    by (simp add: errors_append errors_preamble errors_sidebar overview_fixed_plain
        errors_handler overflow_error_def)
  have "length (without_previews (shown (fst (script ?d fresh)))) = 13"
    unfolding d
    by (simp add: without_previews_def preamble_def sidebar_def overview_page_def)
  moreover have "length (without_previews (shown (fst (script ?c fresh)))) = 14"
    unfolding c
    by (simp add: without_previews_def preamble_def sidebar_def overview_page_def handler_def)
  ultimately have 3: "without_previews (shown (fst (script ?d fresh)))
      \<noteq> without_previews (shown (fst (script ?c fresh)))"
    by auto
  from l 1 2 3 show ?thesis by simp
qed

subsection \<open>What the loader lets through\<close>

lemma radios_body: "radios (body b df) = []"
  by (cases b)
     (simp_all add: radios_def overview_page_def exploratory_page_def clustering_page_def
        duration_page_def recommendations_page_def)

lemma radios_render_page: "radios (render_page s df) = []"
  by (simp add: render_page_def radios_body split: option.split) (simp add: radios_def)

lemma radios_sidebar:
  "radios sidebar =
     [[''Overview'', ''Exploratory Analysis'', ''Content Clustering'', ''Duration Prediction'',
       ''Strategic Recommendations'']]"
  by (simp add: radios_def sidebar_def nav_choices_def)

lemma radios_overview_fixed: "radios (butlast (overview_page df)) = []"
  by (simp add: radios_def overview_page_def)

lemma script_load_raises:
  assumes ok: "\<forall>u. preview_of u = [] \<longrightarrow> raises c u = None"
      and l: "load_data (storage c) p = (Inl e, q)"
  shows "script c p = (\<lparr>shown = preamble @ handler e, uncaught = None\<rparr>, q)"
proof -
  have pre: "emit (raises c) preamble = (preamble, None)"
    using ok by (rule draws) (simp add: frame_plain)
  have "raises c (Body, Error (''Error loading dashboard: '' @ exc_str e)) = None"
    using ok by simp
  with script_raised [OF pre try_body_load_fails [OF l]] show ?thesis by simp
qed

lemma failed_cycle_page:
  "errors (preamble @ handler e) = [''Error loading dashboard: '' @ exc_str e]"
  "radios (preamble @ handler e) = []"
  "previews (preamble @ handler e) = []"
  "metrics (preamble @ handler e) = []"
  by (simp_all add: errors_append errors_preamble errors_handler radios_append radios_preamble
      radios_handler previews_append metrics_append frame_plain handler_plain)

text \<open>
  Claim C9, as the loader behaves. With nothing cached, the loader fails exactly when
  \<^verbatim>\<open>pd.read_csv\<close> raises, and with that exception: a \<^verbatim>\<open>FileNotFoundError\<close> for a
  missing file, and whatever \<^verbatim>\<open>pd.read_csv\<close> raises for a file it cannot open or
  parse. The cycle then shows the one error box with the text of the exception, and no
  selector, metric or preview. The loader checks no column: every table the parser
  returns is loaded and cached, and the cycle goes on to the selector and the selected
  page, with no error box on any page but the Overview; there the first ten rows are
  previewed when \<^verbatim>\<open>st.dataframe\<close> accepts them, and the error box with its exception
  is shown when it does not. With a table cached, the loader returns it and does not look
  at the file. Every call but \<^verbatim>\<open>st.dataframe\<close> is taken to draw.
\<close>

theorem loader_fails_as_read_csv_does:
  "(cache p = None \<and> fs ''netflix_clean.csv'' = Absent \<longrightarrow>
      fst (load_data fs p) =
        Inl \<lparr>exc_class = ''FileNotFoundError'',
             exc_str = ''[Errno 2] No such file or directory: '' @ repr ''netflix_clean.csv''\<rparr>)
   \<and> (\<forall>e. cache p = None \<and> fs ''netflix_clean.csv'' = Rejected e \<longrightarrow>
      fst (load_data fs p) = Inl e)
   \<and> (\<forall>df. cache p = None \<and> fs ''netflix_clean.csv'' = Parsed df \<longrightarrow>
      load_data fs p = (Inr df, p\<lparr>cache := Some df, reads := Suc (reads p)\<rparr>))
   \<and> (\<forall>df. cache p = Some df \<longrightarrow> load_data fs p = (Inr df, p))
   \<and> (\<forall>c e q. storage c = fs \<and> load_data fs p = (Inl e, q)
          \<and> (\<forall>u. preview_of u = [] \<longrightarrow> raises c u = None) \<longrightarrow>
        errors (shown (fst (script c p))) = [''Error loading dashboard: '' @ exc_str e]
        \<and> radios (shown (fst (script c p))) = []
        \<and> previews (shown (fst (script c p))) = []
        \<and> metrics (shown (fst (script c p))) = []
        \<and> uncaught (fst (script c p)) = None)
   \<and> (\<forall>c df q. storage c = fs \<and> load_data fs p = (Inr df, q)
          \<and> (\<forall>u. preview_of u = [] \<longrightarrow> raises c u = None) \<longrightarrow>
        radios (shown (fst (script c p))) =
          [[''Overview'', ''Exploratory Analysis'', ''Content Clustering'',
            ''Duration Prediction'', ''Strategic Recommendations'']]
        \<and> uncaught (fst (script c p)) = None
        \<and> (selection c \<noteq> ''Overview'' \<longrightarrow>
              shown (fst (script c p)) = preamble @ sidebar @ render_page (selection c) df
              \<and> errors (shown (fst (script c p))) = [])
        \<and> (selection c = ''Overview'' \<and> raises c (Body, Dataframe (head 10 df)) = None \<longrightarrow>
              previews (shown (fst (script c p))) = [head 10 df]
              \<and> errors (shown (fst (script c p))) = [])
        \<and> (\<forall>x. selection c = ''Overview''
                \<and> raises c (Body, Dataframe (head 10 df)) = Some x \<longrightarrow>
              previews (shown (fst (script c p))) = []
              \<and> errors (shown (fst (script c p))) = [''Error loading dashboard: '' @ exc_str x]))"
proof -
  have loader:
    "(cache p = None \<and> fs ''netflix_clean.csv'' = Absent \<longrightarrow>
      fst (load_data fs p) =
        Inl \<lparr>exc_class = ''FileNotFoundError'',
             exc_str = ''[Errno 2] No such file or directory: '' @ repr ''netflix_clean.csv''\<rparr>)
   \<and> (\<forall>e. cache p = None \<and> fs ''netflix_clean.csv'' = Rejected e \<longrightarrow>
      fst (load_data fs p) = Inl e)
   \<and> (\<forall>df. cache p = None \<and> fs ''netflix_clean.csv'' = Parsed df \<longrightarrow>
      load_data fs p = (Inr df, p\<lparr>cache := Some df, reads := Suc (reads p)\<rparr>))
   \<and> (\<forall>df. cache p = Some df \<longrightarrow> load_data fs p = (Inr df, p))"
    by (simp add: load_data_def read_csv_def)
  have failed: "errors (shown (fst (script c p))) = [''Error loading dashboard: '' @ exc_str e]
        \<and> radios (shown (fst (script c p))) = []
        \<and> previews (shown (fst (script c p))) = []
        \<and> metrics (shown (fst (script c p))) = []
        \<and> uncaught (fst (script c p)) = None"
    if "storage c = fs" and "load_data fs p = (Inl e, q)"
      and "\<forall>u. preview_of u = [] \<longrightarrow> raises c u = None" for c e q
  proof -
    from that(1,2) have l: "load_data (storage c) p = (Inl e, q)" by simp
    show ?thesis by (simp add: script_load_raises [OF that(3) l] failed_cycle_page)
  qed
  have loaded: "radios (shown (fst (script c p))) =
          [[''Overview'', ''Exploratory Analysis'', ''Content Clustering'',
            ''Duration Prediction'', ''Strategic Recommendations'']]
        \<and> uncaught (fst (script c p)) = None
        \<and> (selection c \<noteq> ''Overview'' \<longrightarrow>
              shown (fst (script c p)) = preamble @ sidebar @ render_page (selection c) df
              \<and> errors (shown (fst (script c p))) = [])
        \<and> (selection c = ''Overview'' \<and> raises c (Body, Dataframe (head 10 df)) = None \<longrightarrow>
              previews (shown (fst (script c p))) = [head 10 df]
              \<and> errors (shown (fst (script c p))) = [])
        \<and> (\<forall>x. selection c = ''Overview''
                \<and> raises c (Body, Dataframe (head 10 df)) = Some x \<longrightarrow>
              previews (shown (fst (script c p))) = []
              \<and> errors (shown (fst (script c p))) = [''Error loading dashboard: '' @ exc_str x])"
    if "storage c = fs" and "load_data fs p = (Inr df, q)"
      and ok: "\<forall>u. preview_of u = [] \<longrightarrow> raises c u = None" for c df q
  proof (cases "selection c = ''Overview''")
    case True
    from that(1,2) have l: "load_data (storage c) p = (Inr df, q)" by simp
    note s = script_overview [OF ok l True]
    show ?thesis
    proof (cases "raises c (Body, Dataframe (head 10 df))")
      case None
      with True show ?thesis
        by (simp add: s radios_append radios_preamble radios_sidebar radios_overview_fixed
            previews_append errors_append frame_plain overview_fixed_plain errors_preamble
            errors_sidebar)
           (simp add: radios_def previews_def errors_def)
    next
      case (Some x)
      with True show ?thesis
        by (simp add: s radios_append radios_preamble radios_sidebar radios_overview_fixed
            radios_handler previews_append errors_append frame_plain overview_fixed_plain
            handler_plain errors_preamble errors_sidebar errors_handler)
    qed
  next
    case False
    from that(1,2) have l: "load_data (storage c) p = (Inr df, q)" by simp
    note s = script_other_pages [OF ok l False]
    from False show ?thesis
      by (simp add: s radios_append radios_preamble radios_sidebar radios_render_page
          errors_append errors_preamble errors_sidebar errors_render_page)
  qed
  from loader failed loaded show ?thesis by blast
qed

text \<open>
  The theorem at a missing file, at a path that is a directory, at a file holding the
  ledger, and at a missing file with the ledger cached.
\<close>

theorem loader_fails_as_read_csv_does_witness:
  "fst (load_data no_file fresh) =
     Inl \<lparr>exc_class = ''FileNotFoundError'',
          exc_str = ''[Errno 2] No such file or directory: '' @ repr ''netflix_clean.csv''\<rparr>
   \<and> fst (load_data directory_there fresh) = Inl is_a_directory
   \<and> load_data (holds ledger) fresh = (Inr ledger, \<lparr>cache = Some ledger, reads = 1\<rparr>)
   \<and> load_data no_file \<lparr>cache = Some ledger, reads = 1\<rparr> =
       (Inr ledger, \<lparr>cache = Some ledger, reads = 1\<rparr>)
   \<and> errors (shown (fst (script \<lparr>storage = directory_there, selection = ''Overview'', raises = wide_int_fails\<rparr> fresh)))
       = [''Error loading dashboard: [Errno 21] Is a directory: '' @ repr ''netflix_clean.csv'']
   \<and> previews (shown (fst (script \<lparr>storage = holds ledger, selection = ''Overview'', raises = wide_int_fails\<rparr> fresh)))
       = [head 10 ledger]
   \<and> errors (shown (fst (script \<lparr>storage = holds ledger, selection = ''Overview'', raises = wide_int_fails\<rparr> fresh)))
       = []"
proof -
  let ?c = "\<lparr>storage = directory_there, selection = ''Overview'', raises = wide_int_fails\<rparr>"
  let ?d = "\<lparr>storage = holds ledger, selection = ''Overview'', raises = wide_int_fails\<rparr>"
  have a: "cache fresh = None \<and> no_file ''netflix_clean.csv'' = Absent"
    by (simp add: fresh_def no_file_def)
  have b: "cache fresh = None \<and> directory_there ''netflix_clean.csv'' = Rejected is_a_directory"
    by (simp add: fresh_def directory_there_def)
  have c: "cache fresh = None \<and> holds ledger ''netflix_clean.csv'' = Parsed ledger"
    by (simp add: fresh_def holds_def)
  have d: "cache \<lparr>cache = Some ledger, reads = 1\<rparr> = Some ledger" by simp
  from loader_fails_as_read_csv_does [of fresh no_file] a
  have 1: "fst (load_data no_file fresh) =
     Inl \<lparr>exc_class = ''FileNotFoundError'',
          exc_str = ''[Errno 2] No such file or directory: '' @ repr ''netflix_clean.csv''\<rparr>"
    by blast
  from loader_fails_as_read_csv_does [of fresh directory_there] b
  have 2: "fst (load_data directory_there fresh) = Inl is_a_directory"
    by blast
  from loader_fails_as_read_csv_does [of fresh "holds ledger"] c
  have "load_data (holds ledger) fresh =
      (Inr ledger, fresh\<lparr>cache := Some ledger, reads := Suc (reads fresh)\<rparr>)"
    by blast
  then have 3: "load_data (holds ledger) fresh = (Inr ledger, \<lparr>cache = Some ledger, reads = 1\<rparr>)"
    by (simp add: fresh_def)
  from loader_fails_as_read_csv_does [of "\<lparr>cache = Some ledger, reads = 1\<rparr>" no_file] d
  have 4: "load_data no_file \<lparr>cache = Some ledger, reads = 1\<rparr> =
       (Inr ledger, \<lparr>cache = Some ledger, reads = 1\<rparr>)"
    by blast
  have ok: "\<forall>u. preview_of u = [] \<longrightarrow> raises ?c u = None"
    "\<forall>u. preview_of u = [] \<longrightarrow> raises ?d u = None"
    using wide_int_fails_fixed by simp_all
  have ld: "load_data directory_there fresh = (Inl is_a_directory, \<lparr>cache = None, reads = 1\<rparr>)"
    by (simp add: load_data_def read_csv_def directory_there_def fresh_def)
  have "storage ?c = directory_there" by simp
  with loader_fails_as_read_csv_does [of fresh directory_there] ld ok(1)
  have "errors (shown (fst (script ?c fresh))) = [''Error loading dashboard: '' @ exc_str is_a_directory]"
    by blast
  then have 5: "errors (shown (fst (script ?c fresh))) =
      [''Error loading dashboard: [Errno 21] Is a directory: '' @ repr ''netflix_clean.csv'']"
    by (simp add: is_a_directory_def)
  have "storage ?d = holds ledger" and "selection ?d = ''Overview''"
    and "raises ?d (Body, Dataframe (head 10 ledger)) = None"
    by (simp_all add: wide_int_fails_examples)
  with loader_fails_as_read_csv_does [of fresh "holds ledger"] 3 ok(2)
  have 6: "previews (shown (fst (script ?d fresh))) = [head 10 ledger]
      \<and> errors (shown (fst (script ?d fresh))) = []"
    by blast
  from 1 2 3 4 5 6 show ?thesis by blast
qed

text \<open>
  Claim C9 as stated fails. The ledger has one column, \<^verbatim>\<open>amount\<close>, and none of type,
  genre listing, release year, duration and rating; the loader returns it, and the Overview
  page previews it with no error box. And with the catalogue cached, the loader returns it
  though the file is missing.
\<close>

theorem table_without_the_columns_is_loaded_and_rendered:
  "columns ledger = [Str ''amount'']
   \<and> load_data (holds ledger) fresh = (Inr ledger, \<lparr>cache = Some ledger, reads = 1\<rparr>)
   \<and> script \<lparr>storage = holds ledger, selection = ''Overview'', raises = no_faults\<rparr> fresh =
       (\<lparr>shown = preamble @ sidebar @ overview_page ledger, uncaught = None\<rparr>,
        \<lparr>cache = Some ledger, reads = 1\<rparr>)
   \<and> errors (preamble @ sidebar @ overview_page ledger) = []
   \<and> previews (preamble @ sidebar @ overview_page ledger) = [head 10 ledger]
   \<and> load_data no_file \<lparr>cache = Some catalogue, reads = 1\<rparr> =
       (Inr catalogue, \<lparr>cache = Some catalogue, reads = 1\<rparr>)"
proof -
  let ?c = "\<lparr>storage = holds ledger, selection = ''Overview'', raises = no_faults\<rparr>"
  have l: "load_data (storage ?c) fresh = (Inr ledger, \<lparr>cache = Some ledger, reads = 1\<rparr>)"
    by (simp add: load_data_def read_csv_def holds_def fresh_def)
  have r: "raises ?c = no_faults" by simp
  have s: "script ?c fresh =
       (\<lparr>shown = preamble @ sidebar @ overview_page ledger, uncaught = None\<rparr>,
        \<lparr>cache = Some ledger, reads = 1\<rparr>)"
    using script_clean [OF l r] by (simp add: render_page_overview)
  have e: "errors (preamble @ sidebar @ overview_page ledger) = []"
    using errors_body [of Overview ledger]
    by (simp add: errors_append errors_preamble errors_sidebar)
  have p: "previews (preamble @ sidebar @ overview_page ledger) = [head 10 ledger]"
    by (simp add: previews_append frame_plain previews_overview)
  have c: "columns ledger = [Str ''amount'']" by (simp add: ledger_def)
  have w: "load_data no_file \<lparr>cache = Some catalogue, reads = 1\<rparr> =
       (Inr catalogue, \<lparr>cache = Some catalogue, reads = 1\<rparr>)"
    by (simp add: load_data_cached)
  from c l s e p w show ?thesis by simp
qed

subsection \<open>The title and the selector\<close>









end
